theory Spec2Isabelle
  imports Main "HOL-Library.Sublist"
begin

section \<open>Values exchanged with the outside world\<close>

text \<open>
  The pipeline of \<^verbatim>\<open>devops-pipeline-example.py\<close> handles untyped documents: the
  configuration and the test suite come from \<^verbatim>\<open>yaml.safe_load\<close>, the answers of the
  remote service from \<^verbatim>\<open>response.json()\<close>. They are modelled by one datatype of
  parsed documents. An object is an association list; a key is looked up with
  \<open>map_of\<close>, and the parsers deliver every key at most once. Numbers are integers:
  floating-point numbers are outside the model, and so are the YAML values that have no
  JSON counterpart (dates, mappings with keys that are not strings).
\<close>

datatype json =
    JNull
  | JBool bool
  | JInt int
  | JStr string
  | JList "json list"
  | JDict "(string \<times> json) list"

text \<open>
  The exceptions of class \<^verbatim>\<open>Exception\<close> that the program can meet. A
  \<open>RequestException\<close> stands for \<^verbatim>\<open>requests.exceptions.RequestException\<close> and
  its subclasses; it carries the status code and the text of \<^verbatim>\<open>e.response\<close> when
  the exception has one. Asynchronous \<^verbatim>\<open>BaseException\<close>s (a keyboard interrupt)
  are outside the model.
\<close>

datatype exn =
    OSError string
  | YAMLError string
  | AttributeError
  | TypeError
  | ValueError string
  | RequestException string "(nat \<times> string) option"
  | OtherException string

subsection \<open>The Python operations used on documents\<close>

text \<open>Truth value of a document in a condition (\<^verbatim>\<open>if x:\<close>, \<^verbatim>\<open>not x\<close>, \<^verbatim>\<open>a or b\<close>).\<close>

fun py_truthy :: "json \<Rightarrow> bool" where
  "py_truthy JNull = False"
| "py_truthy (JBool b) = b"
| "py_truthy (JInt n) = (n \<noteq> 0)"
| "py_truthy (JStr s) = (s \<noteq> [])"
| "py_truthy (JList xs) = (xs \<noteq> [])"
| "py_truthy (JDict d) = (d \<noteq> [])"

text \<open>
  \<^verbatim>\<open>x.get(key, default)\<close>: only a \<^verbatim>\<open>dict\<close> has the method; on every other
  value the attribute lookup raises.
\<close>

definition dict_get :: "(string \<times> json) list \<Rightarrow> string \<Rightarrow> json \<Rightarrow> json" where
  "dict_get d k dflt = (case map_of d k of Some v \<Rightarrow> v | None \<Rightarrow> dflt)"

fun py_get :: "json \<Rightarrow> string \<Rightarrow> json \<Rightarrow> exn + json" where
  "py_get (JDict d) k dflt = Inr (dict_get d k dflt)"
| "py_get _ k dflt = Inl AttributeError"

text \<open>
  The elements a \<^verbatim>\<open>for\<close> loop visits: the items of a list, the characters of a
  string, the keys of a dict; \<^verbatim>\<open>None\<close>, booleans and numbers are not iterable.
\<close>

fun py_iter :: "json \<Rightarrow> exn + json list" where
  "py_iter (JList xs) = Inr xs"
| "py_iter (JStr s) = Inr (map (\<lambda>c. JStr [c]) s)"
| "py_iter (JDict d) = Inr (map (\<lambda>kv. JStr (fst kv)) d)"
| "py_iter _ = Inl TypeError"

text \<open>
  \<^verbatim>\<open>a == b\<close>: \<^verbatim>\<open>bool\<close> is a subclass of \<^verbatim>\<open>int\<close>, so \<^verbatim>\<open>True == 1\<close>;
  lists are compared elementwise, dicts key by key; values of different kinds differ.
\<close>

fun py_eq :: "json \<Rightarrow> json \<Rightarrow> bool" where
  "py_eq JNull JNull = True"
| "py_eq (JBool a) (JBool b) = (a = b)"
| "py_eq (JBool a) (JInt n) = ((if a then 1 else 0) = n)"
| "py_eq (JInt m) (JBool b) = (m = (if b then 1 else 0))"
| "py_eq (JInt m) (JInt n) = (m = n)"
| "py_eq (JStr s) (JStr t) = (s = t)"
| "py_eq (JList xs) (JList ys) = list_all2 py_eq xs ys"
| "py_eq (JDict a) (JDict b) =
     (set (map fst a) = set (map fst b) \<and>
      (\<forall>kv \<in> set a. case map_of b (fst kv) of None \<Rightarrow> False | Some u \<Rightarrow> py_eq (snd kv) u))"
| "py_eq _ _ = False"

subsection \<open>Paths (\<^verbatim>\<open>posixpath\<close>)\<close>

text \<open>
  \<^verbatim>\<open>os.path.basename\<close>, \<^verbatim>\<open>os.path.dirname\<close> and \<^verbatim>\<open>os.path.join\<close> as
  \<^verbatim>\<open>posixpath\<close> defines them (the separator is the slash), and
  \<^verbatim>\<open>s.split('.')[0]\<close>, the part of \<open>s\<close> before its first dot.
\<close>

definition basename :: "string \<Rightarrow> string" where
  "basename p = rev (takeWhile (\<lambda>c. c \<noteq> CHR ''/'') (rev p))"

definition dirname :: "string \<Rightarrow> string" where
  "dirname p =
     (let head = rev (dropWhile (\<lambda>c. c \<noteq> CHR ''/'') (rev p))
      in if head \<noteq> [] \<and> head \<noteq> replicate (length head) CHR ''/''
         then rev (dropWhile (\<lambda>c. c = CHR ''/'') (rev head))
         else head)"

definition join_step :: "string \<Rightarrow> string \<Rightarrow> string" where
  "join_step path b =
     (if b \<noteq> [] \<and> hd b = CHR ''/'' then b
      else if path = [] \<or> last path = CHR ''/'' then path @ b
      else path @ ''/'' @ b)"

definition path_join :: "string \<Rightarrow> string list \<Rightarrow> string" where
  "path_join a ps = foldl join_step a ps"

definition before_first_dot :: "string \<Rightarrow> string" where
  "before_first_dot s = takeWhile (\<lambda>c. c \<noteq> CHR ''.'') s"

text \<open>The script name sent on deployment and used for the test suite's file name.\<close>

definition script_name :: "string \<Rightarrow> string" where
  "script_name script_path = before_first_dot (basename script_path)"

text \<open>The path \<^verbatim>\<open>run_pipeline\<close> builds for the test suite (lines 247 to 251).\<close>

definition test_suite_path :: "string \<Rightarrow> string" where
  "test_suite_path script_path =
     path_join (dirname script_path) [''tests'', script_name script_path @ ''_tests.yml'']"

section \<open>The world and the trace of a run\<close>

text \<open>
  A request handed to \<^verbatim>\<open>requests\<close>: the method, the two parts of the URL
  \<^verbatim>\<open>f"{self.api_base_url}/{endpoint}"\<close>, the credential of the
  \<^verbatim>\<open>Authorization\<close> header and the JSON payload (none for GET and DELETE).
\<close>

record request =
  req_method :: string
  req_base_url :: json
  req_endpoint :: string
  req_api_key :: json
  req_json :: "json option"

text \<open>
  The answer of the server: its status code, its body as text, and what
  \<^verbatim>\<open>response.json()\<close> does on it (returns the parsed body or raises).
\<close>

record http_response =
  status_code :: nat
  body_text :: string
  json_result :: "exn + json"

text \<open>
  Everything outside the program. Files are read with \<open>read_text\<close>
  (\<^verbatim>\<open>open(path, 'r')\<close> followed by \<^verbatim>\<open>file.read()\<close>, which may raise);
  \<open>http_send\<close> is the call of \<^verbatim>\<open>requests.get/post/put/delete\<close>: given the
  requests made so far and the new one, it raises or delivers a response. The files do
  not change while the program runs.
\<close>

record world =
  read_text :: "string \<Rightarrow> exn + string"
  path_exists :: "string \<Rightarrow> bool"
  yaml_safe_load :: "string \<Rightarrow> exn + json"
  environ :: "string \<Rightarrow> string option"
  http_send :: "request list \<Rightarrow> request \<Rightarrow> exn + http_response"
  now_isoformat :: string

datatype level = INFO | WARNING | ERROR

text \<open>One constructor for each message the program logs, with the values it formats.\<close>

datatype log_msg =
    Initialized string
  | LoadConfigFailed exn
  | ApiRequestFailed exn
  | ResponseStatus nat
  | ResponseBody string
  | ValidatingScript string
  | ValidationSuccessful string
  | ValidationError json json
  | ValidationFailed exn
  | RunningTestSuite string
  | TestsCompleted json json
  | TestFailure json json
  | TestExecutionFailed exn
  | DeployingScript string string
  | EnvConfigNotFound string
  | DeploymentSuccessful json
  | DeploymentFailedMsg json
  | DeploymentFailed exn
  | StartingPipeline string string
  | FailedAtValidation
  | FailedAtTesting
  | FailedAtDeployment
  | NoTestSuite string
  | PipelineCompleted string string
  | PipelineExecutionFailed exn

datatype stage = Validate | Test | Deploy

text \<open>
  The trace of a run, oldest event first: the log records, the remote calls attempted,
  and a mark at each call of a stage method (the mark is bookkeeping: it stands for the
  method call itself and for no statement of its body).
\<close>

datatype event = Log level log_msg | Remote request | Invoked stage

type_synonym trace = "event list"

fun requests_of :: "trace \<Rightarrow> request list" where
  "requests_of [] = []"
| "requests_of (Remote r # es) = r # requests_of es"
| "requests_of (_ # es) = requests_of es"

fun stages_of :: "trace \<Rightarrow> stage list" where
  "stages_of [] = []"
| "stages_of (Invoked s # es) = s # stages_of es"
| "stages_of (_ # es) = stages_of es"

text \<open>The object built by \<^verbatim>\<open>__init__\<close>.\<close>

record pipeline =
  config_path :: string
  config :: json
  api_base_url :: json
  api_key :: json

section \<open>The program\<close>

text \<open>
  Every method takes the trace so far and returns its result with the extended trace.
  A result is \<open>Inr v\<close> when the method returns \<open>v\<close> and \<open>Inl e\<close> when it lets the
  exception \<open>e\<close> escape to its caller. Logging itself never raises.
\<close>

subsection \<open>\<^verbatim>\<open>_load_config\<close> and \<^verbatim>\<open>__init__\<close> (lines 35 to 59)\<close>

definition load_config :: "world \<Rightarrow> string \<Rightarrow> trace \<Rightarrow> (exn + json) \<times> trace" where
  "load_config w cp tr =
     (case read_text w cp of
        Inl e \<Rightarrow> (Inl e, tr @ [Log ERROR (LoadConfigFailed e)])
      | Inr content \<Rightarrow>
          (case yaml_safe_load w content of
             Inl e \<Rightarrow> (Inl e, tr @ [Log ERROR (LoadConfigFailed e)])
           | Inr cfg \<Rightarrow> (Inr cfg, tr)))"

text \<open>\<^verbatim>\<open>os.environ.get(name)\<close>: the value of the variable, or \<^verbatim>\<open>None\<close>.\<close>

definition environ_get :: "world \<Rightarrow> string \<Rightarrow> json" where
  "environ_get w name = (case environ w name of Some v \<Rightarrow> JStr v | None \<Rightarrow> JNull)"

definition pipeline_init :: "world \<Rightarrow> string \<Rightarrow> trace \<Rightarrow> (exn + pipeline) \<times> trace" where
  "pipeline_init w cp tr =
     (case load_config w cp tr of
        (Inl e, t) \<Rightarrow> (Inl e, t)
      | (Inr cfg, t) \<Rightarrow>
          (case py_get cfg ''api_base_url'' JNull of
             Inl e \<Rightarrow> (Inl e, t)
           | Inr base \<Rightarrow>
               (case (if py_truthy (environ_get w ''CXONE_API_KEY'')
                      then Inr (environ_get w ''CXONE_API_KEY'')
                      else py_get cfg ''api_key'' JNull) of
                  Inl e \<Rightarrow> (Inl e, t)
                | Inr key \<Rightarrow>
                    if \<not> py_truthy key
                    then (Inl (ValueError
                           ''CXONE_API_KEY environment variable or api_key in config is required''), t)
                    else (Inr \<lparr>config_path = cp, config = cfg, api_base_url = base,
                               api_key = key\<rparr>,
                          t @ [Log INFO (Initialized cp)]))))"

subsection \<open>\<^verbatim>\<open>_api_request\<close> (lines 61 to 98)\<close>

text \<open>
  \<^verbatim>\<open>Response.ok\<close>: \<^verbatim>\<open>raise_for_status\<close> raises exactly for the codes 400 to 599.
  It is also the truth value of a response object, which line 95 tests.
\<close>

definition response_ok :: "nat \<Rightarrow> bool" where
  "response_ok st = (\<not> (400 \<le> st \<and> st < 600))"

text \<open>The request of lines 73 to 87: URL, headers and, for POST and PUT, the payload.\<close>

definition make_request :: "pipeline \<Rightarrow> string \<Rightarrow> string \<Rightarrow> json \<Rightarrow> request" where
  "make_request p endpoint method data =
     \<lparr>req_method = method, req_base_url = api_base_url p,
      req_endpoint = endpoint, req_api_key = api_key p,
      req_json = (if method = ''POST'' \<or> method = ''PUT'' then Some data else None)\<rparr>"

text \<open>
  Sending it, then \<^verbatim>\<open>response.raise_for_status()\<close> and \<^verbatim>\<open>response.json()\<close>
  (lines 80 to 92, for one of the four methods).
\<close>

definition http_outcome :: "world \<Rightarrow> request list \<Rightarrow> request \<Rightarrow> exn + json" where
  "http_outcome w history req =
     (case http_send w history req of
        Inl e \<Rightarrow> Inl e
      | Inr r \<Rightarrow>
          if response_ok (status_code r) then json_result r
          else Inl (RequestException ''HTTPError'' (Some (status_code r, body_text r))))"

text \<open>
  The handler of lines 93 to 98 applies to a \<^verbatim>\<open>RequestException\<close> only: it logs
  the failure, and the status and body when \<^verbatim>\<open>e.response\<close> counts as true, before
  the exception is raised again. Any other exception passes unlogged.
\<close>

fun request_failure_log :: "exn \<Rightarrow> event list" where
  "request_failure_log (RequestException m resp) =
     Log ERROR (ApiRequestFailed (RequestException m resp)) #
       (case resp of
          Some (st, body) \<Rightarrow>
            if response_ok st
            then [Log ERROR (ResponseStatus st), Log ERROR (ResponseBody body)]
            else []
        | None \<Rightarrow> [])"
| "request_failure_log _ = []"

definition supported_method :: "string \<Rightarrow> bool" where
  "supported_method method =
     (method = ''GET'' \<or> method = ''POST'' \<or> method = ''PUT'' \<or> method = ''DELETE'')"

definition api_request ::
  "world \<Rightarrow> pipeline \<Rightarrow> string \<Rightarrow> string \<Rightarrow> json \<Rightarrow> trace \<Rightarrow> (exn + json) \<times> trace" where
  "api_request w p endpoint method data tr =
     (if \<not> supported_method method
      then (Inl (ValueError ''Unsupported HTTP method''), tr)
      else
        let req = make_request p endpoint method data;
            tr1 = tr @ [Remote req]
        in case http_outcome w (requests_of tr) req of
             Inr v \<Rightarrow> (Inr v, tr1)
           | Inl e \<Rightarrow> (Inl e, tr1 @ request_failure_log e))"

subsection \<open>\<^verbatim>\<open>validate_script\<close> (lines 100 to 134)\<close>

text \<open>The loop of lines 128 and 129; it stops at the first entry that raises.\<close>

fun log_validation_errors :: "json list \<Rightarrow> trace \<Rightarrow> exn option \<times> trace" where
  "log_validation_errors [] tr = (None, tr)"
| "log_validation_errors (error # rest) tr =
     (case py_get error ''message'' JNull of
        Inl e \<Rightarrow> (Some e, tr)
      | Inr m \<Rightarrow>
          (case py_get error ''line'' JNull of
             Inl e \<Rightarrow> (Some e, tr)
           | Inr l \<Rightarrow> log_validation_errors rest (tr @ [Log ERROR (ValidationError m l)])))"

text \<open>The body of the \<^verbatim>\<open>try\<close> block.\<close>

definition validate_body :: "world \<Rightarrow> pipeline \<Rightarrow> string \<Rightarrow> trace \<Rightarrow> (exn + bool) \<times> trace" where
  "validate_body w p script_path tr =
     (case read_text w script_path of
        Inl e \<Rightarrow> (Inl e, tr)
      | Inr script_content \<Rightarrow>
          (case api_request w p ''scripts/validate'' ''POST''
                  (JDict [(''content'', JStr script_content)]) tr of
             (Inl e, tr1) \<Rightarrow> (Inl e, tr1)
           | (Inr response, tr1) \<Rightarrow>
               (case py_get response ''valid'' (JBool False) of
                  Inl e \<Rightarrow> (Inl e, tr1)
                | Inr valid \<Rightarrow>
                    if py_truthy valid
                    then (Inr True, tr1 @ [Log INFO (ValidationSuccessful script_path)])
                    else
                      (case py_get response ''errors'' (JList []) of
                         Inl e \<Rightarrow> (Inl e, tr1)
                       | Inr errors \<Rightarrow>
                           (case py_iter errors of
                              Inl e \<Rightarrow> (Inl e, tr1)
                            | Inr es \<Rightarrow>
                                (case log_validation_errors es tr1 of
                                   (Some e, tr2) \<Rightarrow> (Inl e, tr2)
                                 | (None, tr2) \<Rightarrow> (Inr False, tr2)))))))"

definition validate_script :: "world \<Rightarrow> pipeline \<Rightarrow> string \<Rightarrow> trace \<Rightarrow> (exn + bool) \<times> trace" where
  "validate_script w p script_path tr =
     (case validate_body w p script_path
             (tr @ [Invoked Validate, Log INFO (ValidatingScript script_path)]) of
        (Inr b, tr1) \<Rightarrow> (Inr b, tr1)
      | (Inl e, tr1) \<Rightarrow> (Inr False, tr1 @ [Log ERROR (ValidationFailed e)]))"

subsection \<open>\<^verbatim>\<open>run_tests\<close> (lines 136 to 173)\<close>

text \<open>The loop of lines 166 and 167.\<close>

fun log_test_failures :: "json list \<Rightarrow> trace \<Rightarrow> exn option \<times> trace" where
  "log_test_failures [] tr = (None, tr)"
| "log_test_failures (failure # rest) tr =
     (case py_get failure ''name'' JNull of
        Inl e \<Rightarrow> (Some e, tr)
      | Inr n \<Rightarrow>
          (case py_get failure ''message'' JNull of
             Inl e \<Rightarrow> (Some e, tr)
           | Inr m \<Rightarrow> log_test_failures rest (tr @ [Log ERROR (TestFailure n m)])))"

definition run_tests_body :: "world \<Rightarrow> pipeline \<Rightarrow> string \<Rightarrow> trace \<Rightarrow> (exn + bool) \<times> trace" where
  "run_tests_body w p suite_path tr =
     (case read_text w suite_path of
        Inl e \<Rightarrow> (Inl e, tr)
      | Inr content \<Rightarrow>
          (case yaml_safe_load w content of
             Inl e \<Rightarrow> (Inl e, tr)
           | Inr test_suite \<Rightarrow>
               (case api_request w p ''tests/run'' ''POST'' test_suite tr of
                  (Inl e, tr1) \<Rightarrow> (Inl e, tr1)
                | (Inr response, tr1) \<Rightarrow>
                    (case py_get response ''total'' (JInt 0) of
                       Inl e \<Rightarrow> (Inl e, tr1)
                     | Inr total_tests \<Rightarrow>
                         (case py_get response ''passed'' (JInt 0) of
                            Inl e \<Rightarrow> (Inl e, tr1)
                          | Inr passed_tests \<Rightarrow>
                              let tr2 = tr1 @ [Log INFO (TestsCompleted passed_tests total_tests)]
                              in (case py_get response ''failures'' (JList []) of
                                    Inl e \<Rightarrow> (Inl e, tr2)
                                  | Inr failures \<Rightarrow>
                                      (case py_iter failures of
                                         Inl e \<Rightarrow> (Inl e, tr2)
                                       | Inr fs \<Rightarrow>
                                           (case log_test_failures fs tr2 of
                                              (Some e, tr3) \<Rightarrow> (Inl e, tr3)
                                            | (None, tr3) \<Rightarrow>
                                                (Inr (py_eq passed_tests total_tests), tr3)))))))))"

definition run_tests :: "world \<Rightarrow> pipeline \<Rightarrow> string \<Rightarrow> trace \<Rightarrow> (exn + bool) \<times> trace" where
  "run_tests w p suite_path tr =
     (case run_tests_body w p suite_path
             (tr @ [Invoked Test, Log INFO (RunningTestSuite suite_path)]) of
        (Inr b, tr1) \<Rightarrow> (Inr b, tr1)
      | (Inl e, tr1) \<Rightarrow> (Inr False, tr1 @ [Log ERROR (TestExecutionFailed e)]))"

subsection \<open>\<^verbatim>\<open>deploy_to_environment\<close> (lines 175 to 224)\<close>

text \<open>The payload of lines 199 to 205.\<close>

definition deployment_payload :: "world \<Rightarrow> string \<Rightarrow> string \<Rightarrow> string \<Rightarrow> json \<Rightarrow> json" where
  "deployment_payload w script_path script_content environment business_unit =
     JDict [(''scriptContent'', JStr script_content),
            (''environment'', JStr environment),
            (''businessUnitId'', business_unit),
            (''scriptName'', JStr (script_name script_path)),
            (''description'', JStr (''Deployed by pipeline on '' @ now_isoformat w))]"

definition deploy_body ::
  "world \<Rightarrow> pipeline \<Rightarrow> string \<Rightarrow> string \<Rightarrow> trace \<Rightarrow> (exn + bool) \<times> trace" where
  "deploy_body w p script_path environment tr =
     (case read_text w script_path of
        Inl e \<Rightarrow> (Inl e, tr)
      | Inr script_content \<Rightarrow>
          (case py_get (config p) ''environments'' (JDict []) of
             Inl e \<Rightarrow> (Inl e, tr)
           | Inr envs \<Rightarrow>
               (case py_get envs environment (JDict []) of
                  Inl e \<Rightarrow> (Inl e, tr)
                | Inr env_config \<Rightarrow>
                    if \<not> py_truthy env_config
                    then (Inr False, tr @ [Log ERROR (EnvConfigNotFound environment)])
                    else
                      (case py_get env_config ''business_unit_id'' JNull of
                         Inl e \<Rightarrow> (Inl e, tr)
                       | Inr business_unit \<Rightarrow>
                           let deployment = deployment_payload w script_path script_content
                                              environment business_unit
                           in (case api_request w p ''scripts/deploy'' ''POST'' deployment tr of
                                 (Inl e, tr1) \<Rightarrow> (Inl e, tr1)
                               | (Inr response, tr1) \<Rightarrow>
                                   (case py_get response ''deploymentId'' JNull of
                                      Inl e \<Rightarrow> (Inl e, tr1)
                                    | Inr deployment_id \<Rightarrow>
                                        if py_truthy deployment_id
                                        then (Inr True,
                                              tr1 @ [Log INFO (DeploymentSuccessful deployment_id)])
                                        else
                                          (case py_get response ''message''
                                                  (JStr ''Unknown error'') of
                                             Inl e \<Rightarrow> (Inl e, tr1)
                                           | Inr m \<Rightarrow>
                                               (Inr False,
                                                tr1 @ [Log ERROR (DeploymentFailedMsg m)]))))))))"

definition deploy_to_environment ::
  "world \<Rightarrow> pipeline \<Rightarrow> string \<Rightarrow> string \<Rightarrow> trace \<Rightarrow> (exn + bool) \<times> trace" where
  "deploy_to_environment w p script_path environment tr =
     (case deploy_body w p script_path environment
             (tr @ [Invoked Deploy, Log INFO (DeployingScript environment script_path)]) of
        (Inr b, tr1) \<Rightarrow> (Inr b, tr1)
      | (Inl e, tr1) \<Rightarrow> (Inr False, tr1 @ [Log ERROR (DeploymentFailed e)]))"

subsection \<open>\<^verbatim>\<open>run_pipeline\<close> (lines 226 to 266) and \<^verbatim>\<open>main\<close>\<close>

text \<open>Step 3, lines 260 to 266: what every path that reaches the deployment runs.\<close>

definition pipeline_step3 ::
  "world \<Rightarrow> pipeline \<Rightarrow> string \<Rightarrow> string \<Rightarrow> trace \<Rightarrow> (exn + bool) \<times> trace" where
  "pipeline_step3 w p script_path environment tr =
     (case deploy_to_environment w p script_path environment tr of
        (Inl e, t) \<Rightarrow> (Inl e, t)
      | (Inr deployed, t) \<Rightarrow>
          if \<not> deployed then (Inr False, t @ [Log ERROR FailedAtDeployment])
          else (Inr True, t @ [Log INFO (PipelineCompleted script_path environment)]))"

definition run_pipeline ::
  "world \<Rightarrow> pipeline \<Rightarrow> string \<Rightarrow> string \<Rightarrow> bool \<Rightarrow> trace \<Rightarrow> (exn + bool) \<times> trace" where
  "run_pipeline w p script_path environment skip_tests tr =
     (case validate_script w p script_path
             (tr @ [Log INFO (StartingPipeline script_path environment)]) of
        (Inl e, t1) \<Rightarrow> (Inl e, t1)
      | (Inr valid, t1) \<Rightarrow>
          if \<not> valid then (Inr False, t1 @ [Log ERROR FailedAtValidation])
          else if \<not> skip_tests then
            (if path_exists w (test_suite_path script_path) then
               (case run_tests w p (test_suite_path script_path) t1 of
                  (Inl e, t2) \<Rightarrow> (Inl e, t2)
                | (Inr passed, t2) \<Rightarrow>
                    if \<not> passed then (Inr False, t2 @ [Log ERROR FailedAtTesting])
                    else pipeline_step3 w p script_path environment t2)
             else pipeline_step3 w p script_path environment
                    (t1 @ [Log WARNING (NoTestSuite (test_suite_path script_path))]))
          else pipeline_step3 w p script_path environment t1)"

text \<open>
  The command line as \<^verbatim>\<open>argparse\<close> delivers it, and \<^verbatim>\<open>main\<close> from there on:
  its result is the exit code of the process.
\<close>

record args =
  arg_config :: string
  arg_script :: string
  arg_environment :: string
  arg_skip_tests :: bool

definition main :: "world \<Rightarrow> args \<Rightarrow> trace \<Rightarrow> nat \<times> trace" where
  "main w a tr =
     (case pipeline_init w (arg_config a) tr of
        (Inl e, t) \<Rightarrow> (1, t @ [Log ERROR (PipelineExecutionFailed e)])
      | (Inr p, t) \<Rightarrow>
          (case run_pipeline w p (arg_script a) (arg_environment a) (arg_skip_tests a) t of
             (Inl e, t2) \<Rightarrow> (1, t2 @ [Log ERROR (PipelineExecutionFailed e)])
           | (Inr success, t2) \<Rightarrow> (if success then 0 else 1, t2)))"

section \<open>Notions the properties are stated with\<close>

text \<open>
  The entry of an environment in the configuration's environment mapping, if the
  configuration has such a mapping and the mapping has the entry.
\<close>

definition environment_entry :: "json \<Rightarrow> string \<Rightarrow> json option" where
  "environment_entry cfg environment =
     (case cfg of
        JDict c \<Rightarrow>
          (case map_of c ''environments'' of
             Some (JDict envs) \<Rightarrow> map_of envs environment
           | _ \<Rightarrow> None)
      | _ \<Rightarrow> None)"

text \<open>The credential of the configuration file, if the file loads and has one.\<close>

definition config_file_credential :: "world \<Rightarrow> string \<Rightarrow> json option" where
  "config_file_credential w cp =
     (case read_text w cp of
        Inl e \<Rightarrow> None
      | Inr content \<Rightarrow>
          (case yaml_safe_load w content of
             Inr (JDict c) \<Rightarrow> map_of c ''api_key''
           | _ \<Rightarrow> None))"

text \<open>
  The test-suite path in the specification's words: the script's directory, a
  \<^verbatim>\<open>tests\<close> subdirectory, and in it a file named by the script's base name followed
  by \<^verbatim>\<open>_tests\<close>.
\<close>

definition spec_test_suite_path :: "string \<Rightarrow> string" where
  "spec_test_suite_path script_path =
     path_join (dirname script_path) [''tests'', script_name script_path @ ''_tests'']"

text \<open>
  A request fails when the transport raises or the server answers with a status that
  \<^verbatim>\<open>raise_for_status\<close> rejects.
\<close>

definition http_fails :: "world \<Rightarrow> request list \<Rightarrow> request \<Rightarrow> bool" where
  "http_fails w history req =
     (case http_send w history req of
        Inl e \<Rightarrow> True
      | Inr r \<Rightarrow> 400 \<le> status_code r \<and> status_code r < 600)"

section \<open>A concrete world\<close>

text \<open>
  A small world to run the program in: a configuration with the environment
  \<^verbatim>\<open>dev\<close> and an empty entry for \<^verbatim>\<open>staging\<close>, a file system given by the
  list of its readable files, and a server that answers each endpoint in a fixed way.
\<close>

definition demo_config :: json where
  "demo_config =
     JDict [(''api_base_url'', JStr ''https://cxone.test/api''),
            (''api_key'', JStr ''file-key''),
            (''environments'',
               JDict [(''dev'', JDict [(''business_unit_id'', JInt 4601)]),
                      (''staging'', JDict [])])]"

definition demo_pipeline :: pipeline where
  "demo_pipeline =
     \<lparr>config_path = ''config.yml'', config = demo_config,
      api_base_url = JStr ''https://cxone.test/api'', api_key = JStr ''file-key''\<rparr>"

definition demo_files :: "(string \<times> string) list" where
  "demo_files = [(''config.yml'', ''config''), (''scripts/greeting.flow'', ''script'')]"

definition demo_files_with_tests :: "(string \<times> string) list" where
  "demo_files_with_tests = (''scripts/tests/greeting_tests.yml'', ''suite'') # demo_files"

definition answer :: "json \<Rightarrow> exn + http_response" where
  "answer body = Inr \<lparr>status_code = 200, body_text = ''json'', json_result = Inr body\<rparr>"

text \<open>A transport failure, and an answer that has a status but no JSON body.\<close>

definition connection_error :: "exn + http_response" where
  "connection_error = Inl (RequestException ''ConnectionError'' None)"

definition status_answer :: "nat \<Rightarrow> exn + http_response" where
  "status_answer st =
     Inr \<lparr>status_code = st, body_text = ''no body'', json_result = Inl (ValueError ''no JSON'')\<rparr>"

text \<open>
  An answer with the status 300 (neither a success nor one that
  \<^verbatim>\<open>raise_for_status\<close> rejects) whose JSON body reports a valid script.
\<close>

definition valid_yes_status_300 :: "exn + http_response" where
  "valid_yes_status_300 =
     Inr \<lparr>status_code = 300, body_text = ''json'',
          json_result = Inr (JDict [(''valid'', JBool True)])\<rparr>"

text \<open>Answers of the three endpoints.\<close>

definition valid_yes :: "exn + http_response" where
  "valid_yes = answer (JDict [(''valid'', JBool True)])"

definition valid_no :: "exn + http_response" where
  "valid_no =
     answer (JDict [(''valid'', JBool False),
                    (''errors'', JList [JDict [(''message'', JStr ''unexpected token''),
                                               (''line'', JInt 3)]])])"

definition tests_passed :: "exn + http_response" where
  "tests_passed =
     answer (JDict [(''total'', JInt 2), (''passed'', JInt 2), (''failures'', JList [])])"

definition tests_failed :: "exn + http_response" where
  "tests_failed =
     answer (JDict [(''total'', JInt 2), (''passed'', JInt 1),
                    (''failures'', JList [JDict [(''name'', JStr ''greets caller''),
                                                 (''message'', JStr ''timeout'')]])])"

text \<open>A report in which every test passed and the list of failures is \<^verbatim>\<open>null\<close>.\<close>

definition tests_passed_null_failures :: "exn + http_response" where
  "tests_passed_null_failures =
     answer (JDict [(''total'', JInt 2), (''passed'', JInt 2), (''failures'', JNull)])"

definition deployed :: "exn + http_response" where
  "deployed = answer (JDict [(''deploymentId'', JStr ''dep-1'')])"

text \<open>A deployment answered with the identifier 0.\<close>

definition deployed_zero :: "exn + http_response" where
  "deployed_zero = answer (JDict [(''deploymentId'', JInt 0)])"

definition refused :: "exn + http_response" where
  "refused = answer (JDict [(''message'', JStr ''quota exceeded'')])"

definition demo_server ::
  "(exn + http_response) \<Rightarrow> (exn + http_response) \<Rightarrow> (exn + http_response) \<Rightarrow>
   string \<Rightarrow> exn + http_response" where
  "demo_server validation testing deployment endpoint =
     (if endpoint = ''scripts/validate'' then validation
      else if endpoint = ''tests/run'' then testing
      else deployment)"

definition demo_world ::
  "(string \<times> string) list \<Rightarrow> (string \<Rightarrow> exn + http_response) \<Rightarrow> string option \<Rightarrow> world" where
  "demo_world files server credential =
     \<lparr>read_text = (\<lambda>path. case map_of files path of
                             Some content \<Rightarrow> Inr content
                           | None \<Rightarrow> Inl (OSError ''No such file or directory'')),
      path_exists = (\<lambda>path. map_of files path \<noteq> None),
      yaml_safe_load = (\<lambda>content. if content = ''config'' then Inr demo_config
                                   else if content = ''suite''
                                   then Inr (JDict [(''suite'', JStr ''greeting'')])
                                   else Inl (YAMLError ''cannot parse'')),
      environ = (\<lambda>name. if name = ''CXONE_API_KEY'' then credential else None),
      http_send = (\<lambda>history req. server (req_endpoint req)),
      now_isoformat = ''2024-05-01T12:00:00''\<rparr>"

text \<open>A command line, and a configuration file without a credential.\<close>

definition demo_args :: args where
  "demo_args =
     \<lparr>arg_config = ''config.yml'', arg_script = ''scripts/greeting.flow'',
      arg_environment = ''dev'', arg_skip_tests = False\<rparr>"

definition without_file_credential :: "world \<Rightarrow> world" where
  "without_file_credential w =
     w\<lparr>yaml_safe_load :=
          (\<lambda>content. Inr (JDict [(''api_base_url'', JStr ''https://cxone.test/api'')]))\<rparr>"

section \<open>Running the program in the concrete world\<close>

lemmas program_defs =
  validate_script_def validate_body_def run_tests_def run_tests_body_def
  deploy_to_environment_def deploy_body_def deployment_payload_def
  api_request_def http_outcome_def response_ok_def make_request_def supported_method_def
  dict_get_def run_pipeline_def pipeline_step3_def
  test_suite_path_def script_name_def before_first_dot_def basename_def dirname_def
  path_join_def join_step_def

lemmas demo_defs =
  demo_world_def demo_server_def demo_files_def demo_files_with_tests_def
  demo_pipeline_def demo_config_def answer_def connection_error_def status_answer_def
  valid_yes_def valid_no_def tests_passed_def tests_failed_def deployed_def refused_def
  tests_passed_null_failures_def deployed_zero_def demo_args_def
  without_file_credential_def valid_yes_status_300_def

section \<open>Stages and remote calls in a trace\<close>

lemma requests_of_append [simp]: "requests_of (a @ b) = requests_of a @ requests_of b"
  by (induction a rule: requests_of.induct) simp_all

lemma stages_of_append [simp]: "stages_of (a @ b) = stages_of a @ stages_of b"
  by (induction a rule: stages_of.induct) simp_all

lemma request_failure_log_silent [simp]:
  "stages_of (request_failure_log e) = []" "requests_of (request_failure_log e) = []"
  by (cases e; simp split: option.splits)+

lemma supported_POST [simp]: "supported_method ''POST''"
  by (simp add: supported_method_def)

lemma api_request_stages [simp]:
  "stages_of (snd (api_request w p ep m d tr)) = stages_of tr"
  by (simp add: api_request_def Let_def split: sum.splits)

lemma api_request_requests [simp]:
  "requests_of (snd (api_request w p ep ''POST'' d tr)) =
     requests_of tr @ [make_request p ep ''POST'' d]"
  by (simp add: api_request_def Let_def split: sum.splits)

lemma api_request_prefix [simp]:
  "prefix t tr \<Longrightarrow> prefix t (snd (api_request w p ep m d tr))"
  by (simp add: api_request_def Let_def split: sum.splits)

lemma api_request_fst_cong:
  "requests_of t = requests_of t' \<Longrightarrow>
     fst (api_request w p ep m d t) = fst (api_request w p ep m d t')"
  by (simp add: api_request_def Let_def split: sum.splits)

lemma log_validation_errors_stages [simp]:
  "stages_of (snd (log_validation_errors es tr)) = stages_of tr"
  by (induction es arbitrary: tr) (simp_all split: sum.splits)

lemma log_validation_errors_requests [simp]:
  "requests_of (snd (log_validation_errors es tr)) = requests_of tr"
  by (induction es arbitrary: tr) (simp_all split: sum.splits)

lemma log_validation_errors_prefix [simp]:
  "prefix t tr \<Longrightarrow> prefix t (snd (log_validation_errors es tr))"
  by (induction es arbitrary: tr) (simp_all split: sum.splits)

lemma log_test_failures_stages [simp]:
  "stages_of (snd (log_test_failures fs tr)) = stages_of tr"
  by (induction fs arbitrary: tr) (simp_all split: sum.splits)

lemma log_test_failures_requests [simp]:
  "requests_of (snd (log_test_failures fs tr)) = requests_of tr"
  by (induction fs arbitrary: tr) (simp_all split: sum.splits)

lemma log_test_failures_prefix [simp]:
  "prefix t tr \<Longrightarrow> prefix t (snd (log_test_failures fs tr))"
  by (induction fs arbitrary: tr) (simp_all split: sum.splits)

lemma validate_body_stages [simp]:
  "stages_of (snd (validate_body w p sp tr)) = stages_of tr"
  by (simp add: validate_body_def case_prod_beta split: sum.splits option.splits)

lemma run_tests_body_stages [simp]:
  "stages_of (snd (run_tests_body w p sp tr)) = stages_of tr"
  by (simp add: run_tests_body_def case_prod_beta Let_def split: sum.splits option.splits)

lemma deploy_body_stages [simp]:
  "stages_of (snd (deploy_body w p sp env tr)) = stages_of tr"
  by (simp add: deploy_body_def case_prod_beta Let_def split: sum.splits option.splits)

lemma validate_script_stages:
  "stages_of (snd (validate_script w p sp tr)) = stages_of tr @ [Validate]"
  by (simp add: validate_script_def case_prod_beta split: sum.splits)


lemma deploy_stages:
  "stages_of (snd (deploy_to_environment w p sp env tr)) = stages_of tr @ [Deploy]"
  by (simp add: deploy_to_environment_def case_prod_beta split: sum.splits)

lemma validate_script_prefix:
  "prefix t tr \<Longrightarrow> prefix t (snd (validate_script w p sp tr))"
  by (simp add: validate_script_def validate_body_def case_prod_beta
      split: sum.splits option.splits)

lemma run_tests_prefix:
  "prefix t tr \<Longrightarrow> prefix t (snd (run_tests w p sp tr))"
  by (simp add: run_tests_def run_tests_body_def case_prod_beta Let_def
      split: sum.splits option.splits)

lemma deploy_prefix:
  "prefix t tr \<Longrightarrow> prefix t (snd (deploy_to_environment w p sp env tr))"
  by (simp add: deploy_to_environment_def deploy_body_def case_prod_beta Let_def
      split: sum.splits option.splits)

text \<open>A stage method returns a boolean whatever happens in its body.\<close>

lemma validate_script_returns: "\<exists>b. fst (validate_script w p sp tr) = Inr b"
  by (auto simp: validate_script_def case_prod_beta split: sum.splits)

lemma run_tests_returns: "\<exists>b. fst (run_tests w p sp tr) = Inr b"
  by (auto simp: run_tests_def case_prod_beta split: sum.splits)

lemma deploy_returns: "\<exists>b. fst (deploy_to_environment w p sp env tr) = Inr b"
  by (auto simp: deploy_to_environment_def case_prod_beta split: sum.splits)

text \<open>The deployment depends on the trace only through the requests made so far.\<close>

lemma deploy_body_fst_cong:
  "requests_of t = requests_of t' \<Longrightarrow>
     fst (deploy_body w p sp env t) = fst (deploy_body w p sp env t')"
  using api_request_fst_cong [of t t' w p "''scripts/deploy''" "''POST''"]
  by (simp add: deploy_body_def case_prod_beta Let_def split: sum.splits option.splits)

lemma deploy_fst_cong:
  "requests_of t = requests_of t' \<Longrightarrow>
     fst (deploy_to_environment w p sp env t) = fst (deploy_to_environment w p sp env t')"
  using deploy_body_fst_cong [of "t @ [Invoked Deploy, Log INFO (DeployingScript env sp)]"
      "t' @ [Invoked Deploy, Log INFO (DeployingScript env sp)]" w p sp env]
  by (simp add: deploy_to_environment_def case_prod_beta split: sum.splits)

section \<open>Deployment and the environment mapping\<close>

lemma deploy_body_no_entry:
  assumes "environment_entry (config p) environment = None"
  shows "fst (deploy_body w p sp environment tr) \<noteq> Inr True"
    and "requests_of (snd (deploy_body w p sp environment tr)) = requests_of tr"
  using assms
  by (cases "config p";
      auto simp: deploy_body_def environment_entry_def dict_get_def
           split: sum.splits option.splits json.splits)+

text \<open>
  Claim C2. For every script path and every environment name that has no entry in the
  configuration's environment mapping, \<^verbatim>\<open>deploy_to_environment\<close> returns false and
  attempts no remote call: the requests in the trace after the call are those before it.
\<close>

theorem deploy_rejects_unconfigured_environment:
  assumes "environment_entry (config p) environment = None"
  shows "fst (deploy_to_environment w p script_path environment tr) = Inr False \<and>
         requests_of (snd (deploy_to_environment w p script_path environment tr)) =
           requests_of tr"
  using deploy_body_no_entry [OF assms, of w script_path
      "tr @ [Invoked Deploy, Log INFO (DeployingScript environment script_path)]"]
  by (auto simp: deploy_to_environment_def case_prod_beta split: sum.splits)

theorem deploy_rejects_unconfigured_environment_witness:
  "environment_entry (config demo_pipeline) ''prod'' = None \<and>
   fst (deploy_to_environment
          (demo_world demo_files (demo_server (answer JNull) (answer JNull) (answer JNull)) None)
          demo_pipeline ''scripts/greeting.flow'' ''prod'' []) = Inr False \<and>
   requests_of (snd (deploy_to_environment
          (demo_world demo_files (demo_server (answer JNull) (answer JNull) (answer JNull)) None)
          demo_pipeline ''scripts/greeting.flow'' ''prod'' [])) = requests_of []"
proof -
  have h: "environment_entry (config demo_pipeline) ''prod'' = None"
    by (simp add: environment_entry_def demo_pipeline_def demo_config_def)
  from deploy_rejects_unconfigured_environment [OF h] h show ?thesis
    by blast
qed

lemma deploy_body_empty_entry:
  assumes "environment_entry (config p) environment = Some (JDict [])"
  shows "deploy_body w p sp environment tr =
           (case read_text w sp of
              Inl e \<Rightarrow> (Inl e, tr)
            | Inr content \<Rightarrow> (Inr False, tr @ [Log ERROR (EnvConfigNotFound environment)]))"
  using assms
  by (cases "config p";
      auto simp: deploy_body_def environment_entry_def dict_get_def
           split: sum.splits option.splits json.splits)

lemma deploy_body_missing_entry:
  assumes "config p = JDict c"
    and "map_of c ''environments'' = None \<or>
         (\<exists>envs. map_of c ''environments'' = Some (JDict envs) \<and> map_of envs environment = None)"
  shows "deploy_body w p sp environment tr =
           (case read_text w sp of
              Inl e \<Rightarrow> (Inl e, tr)
            | Inr content \<Rightarrow> (Inr False, tr @ [Log ERROR (EnvConfigNotFound environment)]))"
  using assms
  by (auto simp: deploy_body_def dict_get_def split: sum.splits option.splits json.splits)

text \<open>
  Claim C10. An environment whose entry in the configuration's environment mapping is an
  empty settings mapping is treated exactly like an environment with no entry: the call
  has the same result and trace as under a configuration whose mapping lacks the
  environment, it returns false, and it attempts no remote call.
\<close>

theorem deploy_treats_empty_entry_as_missing:
  assumes empty: "environment_entry (config p) environment = Some (JDict [])"
    and cfg: "config p' = JDict c'"
    and missing: "map_of c' ''environments'' = None \<or>
         (\<exists>envs. map_of c' ''environments'' = Some (JDict envs) \<and>
                 map_of envs environment = None)"
  shows "deploy_to_environment w p script_path environment tr =
           deploy_to_environment w p' script_path environment tr \<and>
         fst (deploy_to_environment w p script_path environment tr) = Inr False \<and>
         requests_of (snd (deploy_to_environment w p script_path environment tr)) =
           requests_of tr \<and>
         (read_text w script_path = Inr content \<longrightarrow>
            deploy_to_environment w p script_path environment tr =
              (Inr False,
               tr @ [Invoked Deploy, Log INFO (DeployingScript environment script_path),
                     Log ERROR (EnvConfigNotFound environment)]))"
  by (simp add: deploy_to_environment_def deploy_body_empty_entry [OF empty]
      deploy_body_missing_entry [OF cfg missing] split: sum.splits)

theorem deploy_treats_empty_entry_as_missing_witness:
  "environment_entry (config demo_pipeline) ''staging'' = Some (JDict []) \<and>
   config (demo_pipeline\<lparr>config := JDict [(''environments'', JDict [])]\<rparr>) =
     JDict [(''environments'', JDict [])] \<and>
   read_text (demo_world demo_files (demo_server (answer JNull) (answer JNull) (answer JNull)) None)
     ''scripts/greeting.flow'' = Inr ''script'' \<and>
   deploy_to_environment
     (demo_world demo_files (demo_server (answer JNull) (answer JNull) (answer JNull)) None)
     demo_pipeline ''scripts/greeting.flow'' ''staging'' [] =
   deploy_to_environment
     (demo_world demo_files (demo_server (answer JNull) (answer JNull) (answer JNull)) None)
     (demo_pipeline\<lparr>config := JDict [(''environments'', JDict [])]\<rparr>)
     ''scripts/greeting.flow'' ''staging'' [] \<and>
   fst (deploy_to_environment
     (demo_world demo_files (demo_server (answer JNull) (answer JNull) (answer JNull)) None)
     demo_pipeline ''scripts/greeting.flow'' ''staging'' []) = Inr False"
proof -
  have a: "environment_entry (config demo_pipeline) ''staging'' = Some (JDict [])"
    by (simp add: environment_entry_def demo_pipeline_def demo_config_def)
  have b: "config (demo_pipeline\<lparr>config := JDict [(''environments'', JDict [])]\<rparr>) =
     JDict [(''environments'', JDict [])]"
    by simp
  have c: "map_of [(''environments'', JDict [])] ''environments'' = None \<or>
      (\<exists>envs. map_of [(''environments'', JDict [])] ''environments'' = Some (JDict envs) \<and>
              map_of envs ''staging'' = None)"
    by simp
  have d: "read_text
     (demo_world demo_files (demo_server (answer JNull) (answer JNull) (answer JNull)) None)
     ''scripts/greeting.flow'' = Inr ''script''"
    by (simp add: demo_world_def demo_files_def)
  from deploy_treats_empty_entry_as_missing [OF a b c, where content = "''script''"
      and script_path = "''scripts/greeting.flow''" and tr = "[]"
      and w = "demo_world demo_files (demo_server (answer JNull) (answer JNull) (answer JNull))
                 None"] a b d
  show ?thesis by blast
qed

section \<open>Failures inside a stage\<close>

lemma api_request_fails:
  assumes "http_fails w (requests_of tr) (make_request p ep ''POST'' d)"
  shows "\<exists>e. fst (api_request w p ep ''POST'' d tr) = Inl e"
  using assms
  by (auto simp: http_fails_def api_request_def http_outcome_def response_ok_def Let_def
      split: sum.splits)

lemma validate_script_io:
  "read_text w sp = Inl e \<Longrightarrow>
   validate_script w p sp tr =
     (Inr False, tr @ [Invoked Validate, Log INFO (ValidatingScript sp),
                       Log ERROR (ValidationFailed e)])"
  by (simp add: validate_script_def validate_body_def)

lemma run_tests_io:
  "read_text w sp = Inl e \<Longrightarrow>
   run_tests w p sp tr =
     (Inr False, tr @ [Invoked Test, Log INFO (RunningTestSuite sp),
                       Log ERROR (TestExecutionFailed e)])"
  by (simp add: run_tests_def run_tests_body_def)

lemma deploy_io:
  "read_text w sp = Inl e \<Longrightarrow>
   deploy_to_environment w p sp env tr =
     (Inr False, tr @ [Invoked Deploy, Log INFO (DeployingScript env sp),
                       Log ERROR (DeploymentFailed e)])"
  by (simp add: deploy_to_environment_def deploy_body_def)

lemma validate_script_net:
  assumes "read_text w sp = Inr c"
    and "http_fails w (requests_of tr)
           (make_request p ''scripts/validate'' ''POST'' (JDict [(''content'', JStr c)]))"
  shows "fst (validate_script w p sp tr) = Inr False \<and>
         (\<exists>e. last (snd (validate_script w p sp tr)) = Log ERROR (ValidationFailed e))"
proof -
  obtain e where "fst (api_request w p ''scripts/validate'' ''POST''
      (JDict [(''content'', JStr c)])
      (tr @ [Invoked Validate, Log INFO (ValidatingScript sp)])) = Inl e"
    using api_request_fails [of w "tr @ [Invoked Validate, Log INFO (ValidatingScript sp)]" p
        "''scripts/validate''" "JDict [(''content'', JStr c)]"]
      assms(2) by auto
  with assms(1) show ?thesis
    by (simp add: validate_script_def validate_body_def case_prod_beta)
qed

lemma run_tests_net:
  assumes "read_text w sp = Inr c" and "yaml_safe_load w c = Inr suite"
    and "http_fails w (requests_of tr) (make_request p ''tests/run'' ''POST'' suite)"
  shows "fst (run_tests w p sp tr) = Inr False \<and>
         (\<exists>e. last (snd (run_tests w p sp tr)) = Log ERROR (TestExecutionFailed e))"
proof -
  obtain e where "fst (api_request w p ''tests/run'' ''POST'' suite
      (tr @ [Invoked Test, Log INFO (RunningTestSuite sp)])) = Inl e"
    using api_request_fails [of w "tr @ [Invoked Test, Log INFO (RunningTestSuite sp)]" p
        "''tests/run''" suite]
      assms(3) by auto
  with assms(1,2) show ?thesis
    by (simp add: run_tests_def run_tests_body_def case_prod_beta)
qed

lemma deploy_net:
  assumes "read_text w sp = Inr c"
    and "environment_entry (config p) env = Some (JDict (s # ss))"
    and "http_fails w (requests_of tr)
           (make_request p ''scripts/deploy'' ''POST''
              (deployment_payload w sp c env (dict_get (s # ss) ''business_unit_id'' JNull)))"
  shows "fst (deploy_to_environment w p sp env tr) = Inr False \<and>
         (\<exists>e. last (snd (deploy_to_environment w p sp env tr)) =
                Log ERROR (DeploymentFailed e))"
proof -
  obtain e where "fst (api_request w p ''scripts/deploy'' ''POST''
      (deployment_payload w sp c env (dict_get (s # ss) ''business_unit_id'' JNull))
      (tr @ [Invoked Deploy, Log INFO (DeployingScript env sp)])) = Inl e"
    using api_request_fails [of w "tr @ [Invoked Deploy, Log INFO (DeployingScript env sp)]" p
        "''scripts/deploy''"
        "deployment_payload w sp c env (dict_get (s # ss) ''business_unit_id'' JNull)"]
      assms(3) by auto
  moreover from assms(2) obtain cf envs where "config p = JDict cf"
      "map_of cf ''environments'' = Some (JDict envs)" "map_of envs env = Some (JDict (s # ss))"
    by (auto simp: environment_entry_def split: json.splits option.splits)
  ultimately show ?thesis using assms(1)
    by (simp add: deploy_to_environment_def deploy_body_def case_prod_beta dict_get_def)
qed


text \<open>
  Claim C5, as stated: every non-success HTTP status met during a stage is turned into
  the return value false. It fails for an answer with the status 300 and a JSON body
  that reports \<^verbatim>\<open>valid: true\<close>: \<^verbatim>\<open>raise_for_status\<close> (line 91) raises for
  the statuses 400 to 599 only, the body is read, and \<^verbatim>\<open>validate_script\<close>
  returns true.
\<close>

theorem status_300_counterexample:
  "http_send (demo_world demo_files (demo_server valid_yes_status_300 tests_passed deployed) None)
     []
     (make_request demo_pipeline ''scripts/validate'' ''POST''
        (JDict [(''content'', JStr ''script'')])) =
     Inr \<lparr>status_code = 300, body_text = ''json'',
          json_result = Inr (JDict [(''valid'', JBool True)])\<rparr> \<and>
   validate_script
     (demo_world demo_files (demo_server valid_yes_status_300 tests_passed deployed) None)
     demo_pipeline ''scripts/greeting.flow'' [] =
     (Inr True,
      [Invoked Validate, Log INFO (ValidatingScript ''scripts/greeting.flow''),
       Remote (make_request demo_pipeline ''scripts/validate'' ''POST''
                 (JDict [(''content'', JStr ''script'')])),
       Log INFO (ValidationSuccessful ''scripts/greeting.flow'')])"
  by (simp add: program_defs demo_defs)

text \<open>
  Claim C5, amended. None of the three stage methods lets an exception escape: each
  returns a boolean for every input. An I/O error on the file it reads, a transport
  error and an HTTP status from 400 to 599 (the statuses \<^verbatim>\<open>raise_for_status\<close>
  rejects) are caught, logged as the stage's failure, and turned into the return value
  false.
\<close>

theorem stages_absorb_errors:
  "(\<exists>b. fst (validate_script w p script_path tr) = Inr b) \<and>
   (\<exists>b. fst (run_tests w p suite_path tr) = Inr b) \<and>
   (\<exists>b. fst (deploy_to_environment w p script_path environment tr) = Inr b) \<and>
   (read_text w script_path = Inl e \<longrightarrow>
      validate_script w p script_path tr =
        (Inr False, tr @ [Invoked Validate, Log INFO (ValidatingScript script_path),
                          Log ERROR (ValidationFailed e)]) \<and>
      deploy_to_environment w p script_path environment tr =
        (Inr False, tr @ [Invoked Deploy, Log INFO (DeployingScript environment script_path),
                          Log ERROR (DeploymentFailed e)])) \<and>
   (read_text w suite_path = Inl e' \<longrightarrow>
      run_tests w p suite_path tr =
        (Inr False, tr @ [Invoked Test, Log INFO (RunningTestSuite suite_path),
                          Log ERROR (TestExecutionFailed e')])) \<and>
   (read_text w script_path = Inr c \<and>
    http_fails w (requests_of tr)
      (make_request p ''scripts/validate'' ''POST'' (JDict [(''content'', JStr c)])) \<longrightarrow>
      fst (validate_script w p script_path tr) = Inr False \<and>
      (\<exists>x. last (snd (validate_script w p script_path tr)) =
             Log ERROR (ValidationFailed x))) \<and>
   (read_text w suite_path = Inr c' \<and> yaml_safe_load w c' = Inr suite \<and>
    http_fails w (requests_of tr) (make_request p ''tests/run'' ''POST'' suite) \<longrightarrow>
      fst (run_tests w p suite_path tr) = Inr False \<and>
      (\<exists>x. last (snd (run_tests w p suite_path tr)) = Log ERROR (TestExecutionFailed x))) \<and>
   (read_text w script_path = Inr c \<and>
    environment_entry (config p) environment = Some (JDict (s # ss)) \<and>
    http_fails w (requests_of tr)
      (make_request p ''scripts/deploy'' ''POST''
         (deployment_payload w script_path c environment
            (dict_get (s # ss) ''business_unit_id'' JNull))) \<longrightarrow>
      fst (deploy_to_environment w p script_path environment tr) = Inr False \<and>
      (\<exists>x. last (snd (deploy_to_environment w p script_path environment tr)) =
             Log ERROR (DeploymentFailed x)))"
  using validate_script_returns [of w p script_path tr]
    run_tests_returns [of w p suite_path tr]
    deploy_returns [of w p script_path environment tr]
    validate_script_io [of w script_path e p tr]
    deploy_io [of w script_path e p environment tr]
    run_tests_io [of w suite_path e' p tr]
    validate_script_net [of w script_path c tr p]
    run_tests_net [of w suite_path c' suite tr p]
    deploy_net [of w script_path c p environment s ss tr]
  by blast


theorem stages_absorb_errors_witness:
  "http_fails (demo_world demo_files_with_tests
       (demo_server connection_error (status_answer 500) (status_answer 503)) None) []
     (make_request demo_pipeline ''scripts/validate'' ''POST''
        (JDict [(''content'', JStr ''script'')])) \<and>
   fst (validate_script (demo_world demo_files_with_tests
       (demo_server connection_error (status_answer 500) (status_answer 503)) None) demo_pipeline ''scripts/greeting.flow'' []) = Inr False \<and>
   http_fails (demo_world demo_files_with_tests
       (demo_server connection_error (status_answer 500) (status_answer 503)) None) []
     (make_request demo_pipeline ''tests/run'' ''POST'' (JDict [(''suite'', JStr ''greeting'')])) \<and>
   fst (run_tests (demo_world demo_files_with_tests
       (demo_server connection_error (status_answer 500) (status_answer 503)) None) demo_pipeline ''scripts/tests/greeting_tests.yml'' []) = Inr False \<and>
   environment_entry (config demo_pipeline) ''dev'' =
     Some (JDict [(''business_unit_id'', JInt 4601)]) \<and>
   fst (deploy_to_environment (demo_world demo_files_with_tests
       (demo_server connection_error (status_answer 500) (status_answer 503)) None) demo_pipeline ''scripts/greeting.flow'' ''dev'' []) =
     Inr False \<and>
   read_text (demo_world demo_files_with_tests
       (demo_server connection_error (status_answer 500) (status_answer 503)) None) ''missing.flow'' = Inl (OSError ''No such file or directory'') \<and>
   validate_script (demo_world demo_files_with_tests
       (demo_server connection_error (status_answer 500) (status_answer 503)) None) demo_pipeline ''missing.flow'' [] =
     (Inr False, [Invoked Validate, Log INFO (ValidatingScript ''missing.flow''),
                  Log ERROR (ValidationFailed (OSError ''No such file or directory''))]) \<and>
   run_tests (demo_world demo_files_with_tests
       (demo_server connection_error (status_answer 500) (status_answer 503)) None) demo_pipeline ''missing.flow'' [] =
     (Inr False, [Invoked Test, Log INFO (RunningTestSuite ''missing.flow''),
                  Log ERROR (TestExecutionFailed (OSError ''No such file or directory''))])"
proof -
  let ?w = "(demo_world demo_files_with_tests
       (demo_server connection_error (status_answer 500) (status_answer 503)) None)"
  have r1: "read_text ?w ''scripts/greeting.flow'' = Inr ''script''"
    and r2: "read_text ?w ''scripts/tests/greeting_tests.yml'' = Inr ''suite''"
    and r3: "read_text ?w ''missing.flow'' = Inl (OSError ''No such file or directory'')"
    and y: "yaml_safe_load ?w ''suite'' = Inr (JDict [(''suite'', JStr ''greeting'')])"
    by (simp_all add: demo_world_def demo_files_with_tests_def demo_files_def)
  have f1: "http_fails ?w []
     (make_request demo_pipeline ''scripts/validate'' ''POST''
        (JDict [(''content'', JStr ''script'')]))"
    and f2: "http_fails ?w []
     (make_request demo_pipeline ''tests/run'' ''POST'' (JDict [(''suite'', JStr ''greeting'')]))"
    and f3: "http_fails ?w []
     (make_request demo_pipeline ''scripts/deploy'' ''POST''
        (deployment_payload ?w ''scripts/greeting.flow'' ''script'' ''dev''
           (dict_get [(''business_unit_id'', JInt 4601)] ''business_unit_id'' JNull)))"
    by (simp_all add: http_fails_def demo_world_def demo_server_def make_request_def
        connection_error_def status_answer_def)
  have en: "environment_entry (config demo_pipeline) ''dev'' =
     Some (JDict [(''business_unit_id'', JInt 4601)])"
    by (simp add: environment_entry_def demo_pipeline_def demo_config_def)
  have a: "fst (validate_script ?w demo_pipeline ''scripts/greeting.flow'' []) = Inr False \<and>
      fst (run_tests ?w demo_pipeline ''scripts/tests/greeting_tests.yml'' []) = Inr False \<and>
      fst (deploy_to_environment ?w demo_pipeline ''scripts/greeting.flow'' ''dev'' []) =
        Inr False"
    using stages_absorb_errors [of ?w demo_pipeline "''scripts/greeting.flow''" "[]"
        "''scripts/tests/greeting_tests.yml''" "''dev''" AttributeError AttributeError
        "''script''" "''suite''" "JDict [(''suite'', JStr ''greeting'')]"
        "(''business_unit_id'', JInt 4601)" "[]"]
      r1 r2 y f1 f2 f3 en
    by simp
  have b: "validate_script ?w demo_pipeline ''missing.flow'' [] =
     (Inr False, [Invoked Validate, Log INFO (ValidatingScript ''missing.flow''),
                  Log ERROR (ValidationFailed (OSError ''No such file or directory''))]) \<and>
    run_tests ?w demo_pipeline ''missing.flow'' [] =
     (Inr False, [Invoked Test, Log INFO (RunningTestSuite ''missing.flow''),
                  Log ERROR (TestExecutionFailed (OSError ''No such file or directory''))])"
    using stages_absorb_errors [of ?w demo_pipeline "''missing.flow''" "[]"
        "''missing.flow''" "''dev''" "OSError ''No such file or directory''"
        "OSError ''No such file or directory''"
        "''script''" "''suite''" "JDict [(''suite'', JStr ''greeting'')]"
        "(''business_unit_id'', JInt 4601)" "[]"]
      r3
    by simp
  from a b f1 f2 en r3 show ?thesis by blast
qed

section \<open>The order of the stages\<close>

lemma validate_script_no_raise [simp]: "fst (validate_script w p sp tr) \<noteq> Inl e"
  using validate_script_returns [of w p sp tr] by auto

lemma run_tests_no_raise [simp]: "fst (run_tests w p sp tr) \<noteq> Inl e"
  using run_tests_returns [of w p sp tr] by auto

lemma deploy_no_raise [simp]: "fst (deploy_to_environment w p sp env tr) \<noteq> Inl e"
  using deploy_returns [of w p sp env tr] by auto





text \<open>
  Claim C6. When validation succeeds, tests are not to be skipped and no file exists at
  the derived test-suite path, \<^verbatim>\<open>run_pipeline\<close> logs a warning, does not call
  \<^verbatim>\<open>run_tests\<close>, and goes on to the deployment: its result is the result of the
  deployment.
\<close>

theorem missing_test_suite_is_skipped:
  assumes "fst (validate_script w p script_path
                  (tr @ [Log INFO (StartingPipeline script_path environment)])) = Inr True"
    and "\<not> path_exists w (test_suite_path script_path)"
  shows
    "let v = validate_script w p script_path
               (tr @ [Log INFO (StartingPipeline script_path environment)]);
         warned = snd v @ [Log WARNING (NoTestSuite (test_suite_path script_path))];
         d = deploy_to_environment w p script_path environment warned;
         run = run_pipeline w p script_path environment False tr
     in stages_of (snd run) = stages_of tr @ [Validate, Deploy] \<and>
        prefix warned (snd run) \<and>
        fst run = fst d \<and>
        snd run = snd d @ [if fst d = Inr True
                           then Log INFO (PipelineCompleted script_path environment)
                           else Log ERROR FailedAtDeployment]"
  using assms deploy_prefix [of
      "snd (validate_script w p script_path
              (tr @ [Log INFO (StartingPipeline script_path environment)])) @
       [Log WARNING (NoTestSuite (test_suite_path script_path))]"
      "snd (validate_script w p script_path
              (tr @ [Log INFO (StartingPipeline script_path environment)])) @
       [Log WARNING (NoTestSuite (test_suite_path script_path))]"
      w p script_path environment]
  unfolding Let_def
  by (auto simp: run_pipeline_def pipeline_step3_def case_prod_beta
      validate_script_stages deploy_stages split: sum.splits)

theorem missing_test_suite_is_skipped_witness:
  "fst (validate_script (demo_world demo_files (demo_server valid_yes tests_failed deployed) None)
          demo_pipeline ''scripts/greeting.flow''
          ([] @ [Log INFO (StartingPipeline ''scripts/greeting.flow'' ''dev'')])) = Inr True \<and>
   \<not> path_exists (demo_world demo_files (demo_server valid_yes tests_failed deployed) None)
        (test_suite_path ''scripts/greeting.flow'') \<and>
   stages_of (snd (run_pipeline
          (demo_world demo_files (demo_server valid_yes tests_failed deployed) None)
          demo_pipeline ''scripts/greeting.flow'' ''dev'' False [])) = [Validate, Deploy]"
proof -
  let ?s = "''scripts/greeting.flow''"
  let ?w = "demo_world demo_files (demo_server valid_yes tests_failed deployed) None"
  have v: "fst (validate_script ?w demo_pipeline ?s
                 ([] @ [Log INFO (StartingPipeline ?s ''dev'')])) = Inr True"
    by (simp add: program_defs demo_defs)
  have e: "\<not> path_exists ?w (test_suite_path ?s)"
    by (simp add: program_defs demo_defs)
  from missing_test_suite_is_skipped [OF v e]
  have "stages_of (snd (run_pipeline ?w demo_pipeline ?s ''dev'' False [])) =
          stages_of [] @ [Validate, Deploy]"
    unfolding Let_def by blast
  then have s: "stages_of (snd (run_pipeline ?w demo_pipeline ?s ''dev'' False [])) =
          [Validate, Deploy]"
    by simp
  from v e s show ?thesis by blast
qed

section \<open>Validation\<close>

lemma log_validation_errors_objects:
  "log_validation_errors (map JDict ds) tr =
     (None, tr @ map (\<lambda>d. Log ERROR (ValidationError (dict_get d ''message'' JNull)
                                                     (dict_get d ''line'' JNull))) ds)"
  by (induction ds arbitrary: tr) simp_all

lemma validate_body_invalid:
  assumes "read_text w sp = Inr content"
    and "api_request w p ''scripts/validate'' ''POST'' (JDict [(''content'', JStr content)]) t =
           (Inr (JDict r), tr1)"
    and "map_of r ''valid'' = Some (JBool False)"
  shows "fst (validate_body w p sp t) \<noteq> Inr True"
  using assms
  by (simp add: validate_body_def dict_get_def case_prod_beta split: sum.splits option.splits)

text \<open>
  Claim C4. When the script file is readable and the validation call returns an object,
  \<^verbatim>\<open>validate_script\<close> returns true if the object reports \<^verbatim>\<open>valid: true\<close>. If it
  reports \<^verbatim>\<open>valid: false\<close> the method returns false, and with a non-empty list of
  diagnostics (objects) as \<^verbatim>\<open>errors\<close> it logs the message and the line of each, in
  order.
\<close>

theorem validate_script_follows_response:
  assumes "read_text w script_path = Inr content"
    and "api_request w p ''scripts/validate'' ''POST'' (JDict [(''content'', JStr content)])
           (tr @ [Invoked Validate, Log INFO (ValidatingScript script_path)]) =
           (Inr (JDict r), tr1)"
  shows "(map_of r ''valid'' = Some (JBool True) \<longrightarrow>
            validate_script w p script_path tr =
              (Inr True, tr1 @ [Log INFO (ValidationSuccessful script_path)])) \<and>
         (map_of r ''valid'' = Some (JBool False) \<longrightarrow>
            fst (validate_script w p script_path tr) = Inr False) \<and>
         (map_of r ''valid'' = Some (JBool False) \<and>
          map_of r ''errors'' = Some (JList (map JDict ds)) \<and> ds \<noteq> [] \<longrightarrow>
            validate_script w p script_path tr =
              (Inr False,
               tr1 @ map (\<lambda>d. Log ERROR (ValidationError (dict_get d ''message'' JNull)
                                                          (dict_get d ''line'' JNull))) ds))"
proof (intro conjI impI)
  assume "map_of r ''valid'' = Some (JBool True)"
  with assms show "validate_script w p script_path tr =
      (Inr True, tr1 @ [Log INFO (ValidationSuccessful script_path)])"
    by (simp add: validate_script_def validate_body_def dict_get_def)
next
  assume "map_of r ''valid'' = Some (JBool False)"
  from validate_body_invalid [OF assms this]
  show "fst (validate_script w p script_path tr) = Inr False"
    by (auto simp: validate_script_def case_prod_beta split: sum.splits)
next
  assume "map_of r ''valid'' = Some (JBool False) \<and>
          map_of r ''errors'' = Some (JList (map JDict ds)) \<and> ds \<noteq> []"
  with assms show "validate_script w p script_path tr =
      (Inr False,
       tr1 @ map (\<lambda>d. Log ERROR (ValidationError (dict_get d ''message'' JNull)
                                                  (dict_get d ''line'' JNull))) ds)"
    by (simp add: validate_script_def validate_body_def log_validation_errors_objects
        dict_get_def [of r])
qed


theorem validate_script_follows_response_witness:
  "read_text (demo_world demo_files (demo_server valid_yes tests_passed deployed) None)
     ''scripts/greeting.flow'' = Inr ''script'' \<and>
   validate_script (demo_world demo_files (demo_server valid_yes tests_passed deployed) None)
     demo_pipeline ''scripts/greeting.flow'' [] =
     (Inr True,
      [Invoked Validate, Log INFO (ValidatingScript ''scripts/greeting.flow''),
       Remote (make_request demo_pipeline ''scripts/validate'' ''POST''
                 (JDict [(''content'', JStr ''script'')])),
       Log INFO (ValidationSuccessful ''scripts/greeting.flow'')]) \<and>
   validate_script (demo_world demo_files (demo_server valid_no tests_passed deployed) None)
     demo_pipeline ''scripts/greeting.flow'' [] =
     (Inr False,
      [Invoked Validate, Log INFO (ValidatingScript ''scripts/greeting.flow''),
       Remote (make_request demo_pipeline ''scripts/validate'' ''POST''
                 (JDict [(''content'', JStr ''script'')])),
       Log ERROR (ValidationError (JStr ''unexpected token'') (JInt 3))])"
proof -
  let ?s = "''scripts/greeting.flow''"
  let ?yes = "demo_world demo_files (demo_server valid_yes tests_passed deployed) None"
  let ?no = "demo_world demo_files (demo_server valid_no tests_passed deployed) None"
  let ?t1 = "[Invoked Validate, Log INFO (ValidatingScript ?s),
       Remote (make_request demo_pipeline ''scripts/validate'' ''POST''
                 (JDict [(''content'', JStr ''script'')]))]"
  let ?d = "[(''message'', JStr ''unexpected token''), (''line'', JInt 3)]"
  have r1: "read_text ?yes ?s = Inr ''script''" and r2: "read_text ?no ?s = Inr ''script''"
    by (simp_all add: demo_defs)
  have a1: "api_request ?yes demo_pipeline ''scripts/validate'' ''POST''
              (JDict [(''content'', JStr ''script'')])
              ([] @ [Invoked Validate, Log INFO (ValidatingScript ?s)]) =
            (Inr (JDict [(''valid'', JBool True)]), ?t1)"
    by (simp add: program_defs demo_defs)
  have a2: "api_request ?no demo_pipeline ''scripts/validate'' ''POST''
              (JDict [(''content'', JStr ''script'')])
              ([] @ [Invoked Validate, Log INFO (ValidatingScript ?s)]) =
            (Inr (JDict [(''valid'', JBool False), (''errors'', JList [JDict ?d])]), ?t1)"
    by (simp add: program_defs demo_defs)
  have y: "validate_script ?yes demo_pipeline ?s [] =
      (Inr True, ?t1 @ [Log INFO (ValidationSuccessful ?s)])"
    using validate_script_follows_response [OF r1 a1, of "[]"] by simp
  have n: "validate_script ?no demo_pipeline ?s [] =
      (Inr False, ?t1 @ map (\<lambda>d. Log ERROR (ValidationError (dict_get d ''message'' JNull)
                                                             (dict_get d ''line'' JNull))) [?d])"
    using validate_script_follows_response [OF r2 a2, of "[?d]"] by simp
  from r1 y n show ?thesis by (simp add: dict_get_def)
qed

section \<open>Test runs\<close>

lemma log_test_failures_objects:
  "log_test_failures (map JDict fs) tr =
     (None, tr @ map (\<lambda>f. Log ERROR (TestFailure (dict_get f ''name'' JNull)
                                                  (dict_get f ''message'' JNull))) fs)"
  by (induction fs arbitrary: tr) simp_all

text \<open>
  Claim C3, as stated: for a readable test suite and a successful remote call,
  \<^verbatim>\<open>run_tests\<close> returns true if and only if the reported passed count equals the
  reported total count. It fails for a report with \<^verbatim>\<open>passed\<close> and \<^verbatim>\<open>total\<close> both
  2 whose \<^verbatim>\<open>failures\<close> field is \<^verbatim>\<open>null\<close>: the loop over the failures raises, the
  handler of line 171 returns false.
\<close>

theorem run_tests_null_failures_counterexample:
  "read_text
     (demo_world demo_files_with_tests
        (demo_server valid_yes tests_passed_null_failures deployed) None)
     ''scripts/tests/greeting_tests.yml'' = Inr ''suite'' \<and>
   fst (api_request
     (demo_world demo_files_with_tests
        (demo_server valid_yes tests_passed_null_failures deployed) None)
     demo_pipeline ''tests/run'' ''POST'' (JDict [(''suite'', JStr ''greeting'')])
     [Invoked Test, Log INFO (RunningTestSuite ''scripts/tests/greeting_tests.yml'')]) =
     Inr (JDict [(''total'', JInt 2), (''passed'', JInt 2), (''failures'', JNull)]) \<and>
   run_tests
     (demo_world demo_files_with_tests
        (demo_server valid_yes tests_passed_null_failures deployed) None)
     demo_pipeline ''scripts/tests/greeting_tests.yml'' [] =
     (Inr False,
      [Invoked Test, Log INFO (RunningTestSuite ''scripts/tests/greeting_tests.yml''),
       Remote (make_request demo_pipeline ''tests/run'' ''POST''
                 (JDict [(''suite'', JStr ''greeting'')])),
       Log INFO (TestsCompleted (JInt 2) (JInt 2)),
       Log ERROR (TestExecutionFailed TypeError)])"
  by (simp add: program_defs demo_defs)

text \<open>
  Claim C3, amended. For a readable test suite and a remote call that returns an object
  whose \<^verbatim>\<open>failures\<close> field is absent or a list of objects, and whose \<^verbatim>\<open>passed\<close>
  and \<^verbatim>\<open>total\<close> are integers (0 when absent), \<^verbatim>\<open>run_tests\<close> returns true if and
  only if passed equals total; when passed is less than total it returns false; and
  every entry of the failure list is logged, in order.
\<close>

theorem run_tests_follows_report:
  assumes "read_text w suite_path = Inr content"
    and "yaml_safe_load w content = Inr suite"
    and "api_request w p ''tests/run'' ''POST'' suite
           (tr @ [Invoked Test, Log INFO (RunningTestSuite suite_path)]) =
           (Inr (JDict r), tr1)"
    and "dict_get r ''failures'' (JList []) = JList (map JDict fs)"
    and "dict_get r ''passed'' (JInt 0) = JInt passed_tests"
    and "dict_get r ''total'' (JInt 0) = JInt total_tests"
  shows "(fst (run_tests w p suite_path tr) = Inr True \<longleftrightarrow> passed_tests = total_tests) \<and>
         (passed_tests < total_tests \<longrightarrow> fst (run_tests w p suite_path tr) = Inr False) \<and>
         snd (run_tests w p suite_path tr) =
           tr1 @ Log INFO (TestsCompleted (JInt passed_tests) (JInt total_tests)) #
             map (\<lambda>f. Log ERROR (TestFailure (dict_get f ''name'' JNull)
                                              (dict_get f ''message'' JNull))) fs"
proof -
  have "run_tests w p suite_path tr =
      (Inr (passed_tests = total_tests),
       tr1 @ Log INFO (TestsCompleted (JInt passed_tests) (JInt total_tests)) #
         map (\<lambda>f. Log ERROR (TestFailure (dict_get f ''name'' JNull)
                                          (dict_get f ''message'' JNull))) fs)"
    using assms
    by (simp add: run_tests_def run_tests_body_def log_test_failures_objects)
  then show ?thesis by auto
qed

theorem run_tests_follows_report_witness:
  "run_tests
     (demo_world demo_files_with_tests (demo_server valid_yes tests_failed deployed) None)
     demo_pipeline ''scripts/tests/greeting_tests.yml'' [] =
     (Inr False,
      [Invoked Test, Log INFO (RunningTestSuite ''scripts/tests/greeting_tests.yml''),
       Remote (make_request demo_pipeline ''tests/run'' ''POST''
                 (JDict [(''suite'', JStr ''greeting'')])),
       Log INFO (TestsCompleted (JInt 1) (JInt 2)),
       Log ERROR (TestFailure (JStr ''greets caller'') (JStr ''timeout''))]) \<and>
   fst (run_tests
     (demo_world demo_files_with_tests (demo_server valid_yes tests_passed deployed) None)
     demo_pipeline ''scripts/tests/greeting_tests.yml'' []) = Inr True"
proof -
  let ?t = "''scripts/tests/greeting_tests.yml''"
  let ?suite = "JDict [(''suite'', JStr ''greeting'')]"
  let ?bad = "demo_world demo_files_with_tests (demo_server valid_yes tests_failed deployed) None"
  let ?good = "demo_world demo_files_with_tests (demo_server valid_yes tests_passed deployed) None"
  let ?t1 = "[Invoked Test, Log INFO (RunningTestSuite ?t),
       Remote (make_request demo_pipeline ''tests/run'' ''POST'' ?suite)]"
  let ?f = "[(''name'', JStr ''greets caller''), (''message'', JStr ''timeout'')]"
  let ?rb = "[(''total'', JInt 2), (''passed'', JInt 1), (''failures'', JList [JDict ?f])]"
  let ?rg = "[(''total'', JInt 2), (''passed'', JInt 2), (''failures'', JList [])]"
  have r1: "read_text ?bad ?t = Inr ''suite''" and r2: "read_text ?good ?t = Inr ''suite''"
    and y1: "yaml_safe_load ?bad ''suite'' = Inr ?suite"
    and y2: "yaml_safe_load ?good ''suite'' = Inr ?suite"
    by (simp_all add: demo_defs)
  have a1: "api_request ?bad demo_pipeline ''tests/run'' ''POST'' ?suite
              ([] @ [Invoked Test, Log INFO (RunningTestSuite ?t)]) = (Inr (JDict ?rb), ?t1)"
    by (simp add: program_defs demo_defs)
  have a2: "api_request ?good demo_pipeline ''tests/run'' ''POST'' ?suite
              ([] @ [Invoked Test, Log INFO (RunningTestSuite ?t)]) = (Inr (JDict ?rg), ?t1)"
    by (simp add: program_defs demo_defs)
  have f1: "dict_get ?rb ''failures'' (JList []) = JList (map JDict [?f])"
    and p1: "dict_get ?rb ''passed'' (JInt 0) = JInt 1"
    and n1: "dict_get ?rb ''total'' (JInt 0) = JInt 2"
    and f2: "dict_get ?rg ''failures'' (JList []) = JList (map JDict [])"
    and p2: "dict_get ?rg ''passed'' (JInt 0) = JInt 2"
    and n2: "dict_get ?rg ''total'' (JInt 0) = JInt 2"
    by (simp_all add: dict_get_def)
  have b: "fst (run_tests ?bad demo_pipeline ?t []) = Inr False \<and>
      snd (run_tests ?bad demo_pipeline ?t []) =
        ?t1 @ Log INFO (TestsCompleted (JInt 1) (JInt 2)) #
          map (\<lambda>f. Log ERROR (TestFailure (dict_get f ''name'' JNull)
                                           (dict_get f ''message'' JNull))) [?f]"
    using run_tests_follows_report [OF r1 y1 a1 f1 p1 n1] by simp
  have g: "fst (run_tests ?good demo_pipeline ?t []) = Inr True"
    using run_tests_follows_report [OF r2 y2 a2 f2 p2 n2] by simp
  from b have "run_tests ?bad demo_pipeline ?t [] =
      (Inr False, ?t1 @ [Log INFO (TestsCompleted (JInt 1) (JInt 2)),
                         Log ERROR (TestFailure (JStr ''greets caller'') (JStr ''timeout''))])"
    by (simp add: dict_get_def prod_eq_iff)
  with g show ?thesis by simp
qed

section \<open>Deployment and the answer of the server\<close>

text \<open>
  Claim C7, as stated: with a readable script, a configured environment and a successful
  remote call, \<^verbatim>\<open>deploy_to_environment\<close> returns true if and only if the response
  contains a deployment identifier. It fails for a response whose \<^verbatim>\<open>deploymentId\<close>
  is the number 0: line 215 tests the truth value of the identifier, and the method
  returns false.
\<close>

theorem deploy_zero_identifier_counterexample:
  "read_text (demo_world demo_files (demo_server valid_yes tests_passed deployed_zero) None)
     ''scripts/greeting.flow'' = Inr ''script'' \<and>
   environment_entry (config demo_pipeline) ''dev'' =
     Some (JDict [(''business_unit_id'', JInt 4601)]) \<and>
   fst (api_request (demo_world demo_files (demo_server valid_yes tests_passed deployed_zero) None)
     demo_pipeline ''scripts/deploy'' ''POST''
     (deployment_payload
        (demo_world demo_files (demo_server valid_yes tests_passed deployed_zero) None)
        ''scripts/greeting.flow'' ''script'' ''dev'' (JInt 4601))
     [Invoked Deploy, Log INFO (DeployingScript ''dev'' ''scripts/greeting.flow'')]) =
     Inr (JDict [(''deploymentId'', JInt 0)]) \<and>
   map_of [(''deploymentId'', JInt 0)] ''deploymentId'' = Some (JInt 0) \<and>
   fst (deploy_to_environment
     (demo_world demo_files (demo_server valid_yes tests_passed deployed_zero) None)
     demo_pipeline ''scripts/greeting.flow'' ''dev'' []) = Inr False"
  by (simp add: program_defs demo_defs environment_entry_def)

lemma configured_environment:
  assumes "environment_entry (config p) environment = Some (JDict (s # ss))"
  shows "\<exists>c envs. config p = JDict c \<and> map_of c ''environments'' = Some (JDict envs) \<and>
           map_of envs environment = Some (JDict (s # ss))"
  using assms by (auto simp: environment_entry_def split: json.splits option.splits)

text \<open>
  Claim C7, amended. With a readable script, an environment whose entry is a non-empty
  settings mapping, and a successful remote call, \<^verbatim>\<open>deploy_to_environment\<close> returns
  true if and only if the response is an object whose \<^verbatim>\<open>deploymentId\<close> is present
  and counts as true (it is not \<^verbatim>\<open>null\<close>, \<^verbatim>\<open>false\<close>, 0 or empty); when the
  response is an object without such an identifier, it returns false and logs the
  \<^verbatim>\<open>message\<close> of the response.
\<close>

theorem deploy_follows_response:
  assumes "read_text w script_path = Inr content"
    and "environment_entry (config p) environment = Some (JDict (s # ss))"
    and "api_request w p ''scripts/deploy'' ''POST''
           (deployment_payload w script_path content environment
              (dict_get (s # ss) ''business_unit_id'' JNull))
           (tr @ [Invoked Deploy, Log INFO (DeployingScript environment script_path)]) =
           (Inr response, tr1)"
  shows "(fst (deploy_to_environment w p script_path environment tr) = Inr True \<longleftrightarrow>
            (\<exists>r. response = JDict r \<and> py_truthy (dict_get r ''deploymentId'' JNull))) \<and>
         (response = JDict r \<and> py_truthy (dict_get r ''deploymentId'' JNull) \<longrightarrow>
            deploy_to_environment w p script_path environment tr =
              (Inr True,
               tr1 @ [Log INFO (DeploymentSuccessful (dict_get r ''deploymentId'' JNull))])) \<and>
         (response = JDict r \<and> \<not> py_truthy (dict_get r ''deploymentId'' JNull) \<longrightarrow>
            deploy_to_environment w p script_path environment tr =
              (Inr False,
               tr1 @ [Log ERROR (DeploymentFailedMsg
                                   (dict_get r ''message'' (JStr ''Unknown error'')))]))"
proof -
  from configured_environment [OF assms(2)] obtain c envs where
    cfg: "config p = JDict c" "map_of c ''environments'' = Some (JDict envs)"
      "map_of envs environment = Some (JDict (s # ss))"
    by blast
  have body: "deploy_body w p script_path environment
      (tr @ [Invoked Deploy, Log INFO (DeployingScript environment script_path)]) =
      (case py_get response ''deploymentId'' JNull of
         Inl e \<Rightarrow> (Inl e, tr1)
       | Inr deployment_id \<Rightarrow>
           if py_truthy deployment_id
           then (Inr True, tr1 @ [Log INFO (DeploymentSuccessful deployment_id)])
           else (case py_get response ''message'' (JStr ''Unknown error'') of
                   Inl e \<Rightarrow> (Inl e, tr1)
                 | Inr m \<Rightarrow> (Inr False, tr1 @ [Log ERROR (DeploymentFailedMsg m)])))"
    using assms(1,3) cfg
    by (simp add: deploy_body_def dict_get_def [of c] dict_get_def [of envs])
  show ?thesis
    by (cases response) (auto simp: deploy_to_environment_def body)
qed


theorem deploy_follows_response_witness:
  "environment_entry (config demo_pipeline) ''dev'' =
     Some (JDict [(''business_unit_id'', JInt 4601)]) \<and>
   deploy_to_environment
     (demo_world demo_files (demo_server valid_yes tests_passed deployed) None)
     demo_pipeline ''scripts/greeting.flow'' ''dev'' [] =
     (Inr True,
      [Invoked Deploy, Log INFO (DeployingScript ''dev'' ''scripts/greeting.flow''),
       Remote (make_request demo_pipeline ''scripts/deploy'' ''POST''
                 (deployment_payload
                    (demo_world demo_files (demo_server valid_yes tests_passed deployed) None)
                    ''scripts/greeting.flow'' ''script'' ''dev'' (JInt 4601))),
       Log INFO (DeploymentSuccessful (JStr ''dep-1''))]) \<and>
   deploy_to_environment
     (demo_world demo_files (demo_server valid_yes tests_passed refused) None)
     demo_pipeline ''scripts/greeting.flow'' ''dev'' [] =
     (Inr False,
      [Invoked Deploy, Log INFO (DeployingScript ''dev'' ''scripts/greeting.flow''),
       Remote (make_request demo_pipeline ''scripts/deploy'' ''POST''
                 (deployment_payload
                    (demo_world demo_files (demo_server valid_yes tests_passed refused) None)
                    ''scripts/greeting.flow'' ''script'' ''dev'' (JInt 4601))),
       Log ERROR (DeploymentFailedMsg (JStr ''quota exceeded''))])"
proof -
  let ?s = "''scripts/greeting.flow''"
  let ?yes = "demo_world demo_files (demo_server valid_yes tests_passed deployed) None"
  let ?no = "demo_world demo_files (demo_server valid_yes tests_passed refused) None"
  let ?bu = "(''business_unit_id'', JInt 4601)"
  let ?t0 = "[Invoked Deploy, Log INFO (DeployingScript ''dev'' ?s)]"
  have r1: "read_text ?yes ?s = Inr ''script''" and r2: "read_text ?no ?s = Inr ''script''"
    by (simp_all add: demo_defs)
  have en: "environment_entry (config demo_pipeline) ''dev'' = Some (JDict (?bu # []))"
    by (simp add: environment_entry_def demo_defs)
  have bu: "dict_get (?bu # []) ''business_unit_id'' JNull = JInt 4601"
    by (simp add: dict_get_def)
  have a1: "api_request ?yes demo_pipeline ''scripts/deploy'' ''POST''
              (deployment_payload ?yes ?s ''script'' ''dev''
                 (dict_get (?bu # []) ''business_unit_id'' JNull))
              ([] @ ?t0) =
            (Inr (JDict [(''deploymentId'', JStr ''dep-1'')]),
             ?t0 @ [Remote (make_request demo_pipeline ''scripts/deploy'' ''POST''
                      (deployment_payload ?yes ?s ''script'' ''dev'' (JInt 4601)))])"
    by (simp add: program_defs demo_defs)
  have a2: "api_request ?no demo_pipeline ''scripts/deploy'' ''POST''
              (deployment_payload ?no ?s ''script'' ''dev''
                 (dict_get (?bu # []) ''business_unit_id'' JNull))
              ([] @ ?t0) =
            (Inr (JDict [(''message'', JStr ''quota exceeded'')]),
             ?t0 @ [Remote (make_request demo_pipeline ''scripts/deploy'' ''POST''
                      (deployment_payload ?no ?s ''script'' ''dev'' (JInt 4601)))])"
    by (simp add: program_defs demo_defs)
  have y: "deploy_to_environment ?yes demo_pipeline ?s ''dev'' [] =
      (Inr True,
       (?t0 @ [Remote (make_request demo_pipeline ''scripts/deploy'' ''POST''
                      (deployment_payload ?yes ?s ''script'' ''dev'' (JInt 4601)))]) @
       [Log INFO (DeploymentSuccessful
                    (dict_get [(''deploymentId'', JStr ''dep-1'')] ''deploymentId'' JNull))])"
    using deploy_follows_response [OF r1 en a1, of "[(''deploymentId'', JStr ''dep-1'')]"]
    by (simp add: dict_get_def)
  have n: "deploy_to_environment ?no demo_pipeline ?s ''dev'' [] =
      (Inr False,
       (?t0 @ [Remote (make_request demo_pipeline ''scripts/deploy'' ''POST''
                      (deployment_payload ?no ?s ''script'' ''dev'' (JInt 4601)))]) @
       [Log ERROR (DeploymentFailedMsg
                    (dict_get [(''message'', JStr ''quota exceeded'')] ''message''
                       (JStr ''Unknown error'')))])"
    using deploy_follows_response [OF r2 en a2, of "[(''message'', JStr ''quota exceeded'')]"]
    by (simp add: dict_get_def)
  from en y n show ?thesis by (simp add: dict_get_def)
qed

section \<open>Construction and the credential\<close>

lemma pipeline_init_silent [simp]:
  "stages_of (snd (pipeline_init w cp tr)) = stages_of tr"
  "requests_of (snd (pipeline_init w cp tr)) = requests_of tr"
  by (simp_all add: pipeline_init_def load_config_def split: sum.splits)

lemma pipeline_init_no_credential:
  assumes "environ w ''CXONE_API_KEY'' = None" and "config_file_credential w cp = None"
  shows "\<exists>e. fst (pipeline_init w cp tr) = Inl e"
proof (cases "read_text w cp")
  case (Inl e)
  then show ?thesis by (simp add: pipeline_init_def load_config_def)
next
  case (Inr content)
  show ?thesis
  proof (cases "yaml_safe_load w content")
    case (Inl e)
    with Inr show ?thesis by (simp add: pipeline_init_def load_config_def)
  next
    case yaml: (Inr cfg)
    show ?thesis
      using assms Inr yaml
      by (cases cfg)
        (simp_all add: pipeline_init_def load_config_def environ_get_def
          config_file_credential_def dict_get_def)
  qed
qed

text \<open>
  Claim C8, as stated: when the credential environment variable is set, its value
  overrides the credential of the configuration file. It fails for a variable set to the
  empty string: line 45 combines the two with \<^verbatim>\<open>or\<close>, and the pipeline is built
  with the credential of the file.
\<close>

theorem empty_credential_variable_counterexample:
  "environ (demo_world demo_files (demo_server valid_yes tests_passed deployed) (Some ''''))
     ''CXONE_API_KEY'' = Some '''' \<and>
   config_file_credential
     (demo_world demo_files (demo_server valid_yes tests_passed deployed) (Some ''''))
     ''config.yml'' = Some (JStr ''file-key'') \<and>
   fst (pipeline_init
     (demo_world demo_files (demo_server valid_yes tests_passed deployed) (Some ''''))
     ''config.yml'' []) =
     Inr \<lparr>config_path = ''config.yml'', config = demo_config,
          api_base_url = JStr ''https://cxone.test/api'', api_key = JStr ''file-key''\<rparr>"
  by (simp add: pipeline_init_def load_config_def environ_get_def config_file_credential_def
      dict_get_def demo_defs)

text \<open>
  Claim C8, amended. Construction raises, and \<^verbatim>\<open>main\<close> exits with code 1 before any
  stage or remote call, whenever neither the credential environment variable nor a
  credential of the configuration file is present. When the variable is set to a
  non-empty value, that value is the credential of the pipeline, whatever the file
  says; a variable set to the empty string counts as unset.
\<close>

theorem credential_required_and_variable_first:
  "(environ w ''CXONE_API_KEY'' = None \<and> config_file_credential w (arg_config a) = None \<longrightarrow>
      (\<exists>e. fst (pipeline_init w (arg_config a) tr) = Inl e) \<and>
      fst (main w a tr) = 1 \<and>
      stages_of (snd (main w a tr)) = stages_of tr \<and>
      requests_of (snd (main w a tr)) = requests_of tr) \<and>
   (environ w ''CXONE_API_KEY'' = Some v \<and> v \<noteq> [] \<and>
    fst (pipeline_init w (arg_config a) tr) = Inr p \<longrightarrow> api_key p = JStr v) \<and>
   (environ w ''CXONE_API_KEY'' = Some v \<and> v \<noteq> [] \<and>
    read_text w (arg_config a) = Inr content \<and> yaml_safe_load w content = Inr (JDict c) \<longrightarrow>
      fst (pipeline_init w (arg_config a) tr) =
        Inr \<lparr>config_path = arg_config a, config = JDict c,
             api_base_url = dict_get c ''api_base_url'' JNull, api_key = JStr v\<rparr>) \<and>
   (environ w ''CXONE_API_KEY'' = Some [] \<longrightarrow>
      pipeline_init w (arg_config a) tr =
        pipeline_init (w\<lparr>environ := (environ w)(''CXONE_API_KEY'' := None)\<rparr>) (arg_config a) tr)"
proof -
  have none: "environ w ''CXONE_API_KEY'' = None \<and>
      config_file_credential w (arg_config a) = None \<longrightarrow>
      (\<exists>e. fst (pipeline_init w (arg_config a) tr) = Inl e) \<and>
      fst (main w a tr) = 1 \<and>
      stages_of (snd (main w a tr)) = stages_of tr \<and>
      requests_of (snd (main w a tr)) = requests_of tr"
  proof
    assume "environ w ''CXONE_API_KEY'' = None \<and>
      config_file_credential w (arg_config a) = None"
    then obtain e where "fst (pipeline_init w (arg_config a) tr) = Inl e"
      using pipeline_init_no_credential [of w "arg_config a" tr] by blast
    then show "(\<exists>e. fst (pipeline_init w (arg_config a) tr) = Inl e) \<and>
      fst (main w a tr) = 1 \<and>
      stages_of (snd (main w a tr)) = stages_of tr \<and>
      requests_of (snd (main w a tr)) = requests_of tr"
      by (simp add: main_def case_prod_beta)
  qed
  have key: "environ w ''CXONE_API_KEY'' = Some v \<and> v \<noteq> [] \<and>
      fst (pipeline_init w (arg_config a) tr) = Inr p \<longrightarrow> api_key p = JStr v"
    by (auto simp: pipeline_init_def load_config_def environ_get_def
        split: sum.splits if_splits)
  have built: "environ w ''CXONE_API_KEY'' = Some v \<and> v \<noteq> [] \<and>
      read_text w (arg_config a) = Inr content \<and> yaml_safe_load w content = Inr (JDict c) \<longrightarrow>
      fst (pipeline_init w (arg_config a) tr) =
        Inr \<lparr>config_path = arg_config a, config = JDict c,
             api_base_url = dict_get c ''api_base_url'' JNull, api_key = JStr v\<rparr>"
    by (auto simp: pipeline_init_def load_config_def environ_get_def)
  have unset: "environ w ''CXONE_API_KEY'' = Some [] \<longrightarrow>
      pipeline_init w (arg_config a) tr =
        pipeline_init (w\<lparr>environ := (environ w)(''CXONE_API_KEY'' := None)\<rparr>) (arg_config a) tr"
  proof
    assume "environ w ''CXONE_API_KEY'' = Some []"
    then show "pipeline_init w (arg_config a) tr =
        pipeline_init (w\<lparr>environ := (environ w)(''CXONE_API_KEY'' := None)\<rparr>) (arg_config a) tr"
      by (simp add: pipeline_init_def load_config_def environ_get_def split: sum.splits)
  qed
  from none key built unset show ?thesis by blast
qed


theorem credential_required_and_variable_first_witness:
  "environ (without_file_credential
       (demo_world demo_files (demo_server valid_yes tests_passed deployed) None))
     ''CXONE_API_KEY'' = None \<and>
   config_file_credential (without_file_credential
       (demo_world demo_files (demo_server valid_yes tests_passed deployed) None))
     (arg_config demo_args) = None \<and>
   fst (main (without_file_credential
       (demo_world demo_files (demo_server valid_yes tests_passed deployed) None))
     demo_args []) = 1 \<and>
   stages_of (snd (main (without_file_credential
       (demo_world demo_files (demo_server valid_yes tests_passed deployed) None))
     demo_args [])) = [] \<and>
   config_file_credential
     (demo_world demo_files (demo_server valid_yes tests_passed deployed) (Some ''env-key''))
     (arg_config demo_args) = Some (JStr ''file-key'') \<and>
   fst (pipeline_init
     (demo_world demo_files (demo_server valid_yes tests_passed deployed) (Some ''env-key''))
     (arg_config demo_args) []) =
     Inr \<lparr>config_path = ''config.yml'', config = demo_config,
          api_base_url = JStr ''https://cxone.test/api'', api_key = JStr ''env-key''\<rparr>"
proof -
  let ?w0 = "without_file_credential
       (demo_world demo_files (demo_server valid_yes tests_passed deployed) None)"
  let ?w1 = "demo_world demo_files (demo_server valid_yes tests_passed deployed)
       (Some ''env-key'')"
  have e0: "environ ?w0 ''CXONE_API_KEY'' = None"
    and c0: "config_file_credential ?w0 (arg_config demo_args) = None"
    and e1: "environ ?w1 ''CXONE_API_KEY'' = Some ''env-key''"
    and c1: "config_file_credential ?w1 (arg_config demo_args) = Some (JStr ''file-key'')"
    and r1: "read_text ?w1 (arg_config demo_args) = Inr ''config''"
    and y1: "yaml_safe_load ?w1 ''config'' = Inr demo_config"
    by (simp_all add: config_file_credential_def demo_defs)
  have a: "fst (main ?w0 demo_args []) = 1 \<and> stages_of (snd (main ?w0 demo_args [])) = []"
    using credential_required_and_variable_first [of ?w0 demo_args "[]"] e0 c0
    by simp
  have b: "fst (pipeline_init ?w1 (arg_config demo_args) []) =
      Inr \<lparr>config_path = arg_config demo_args, config = demo_config,
           api_base_url = JStr ''https://cxone.test/api'', api_key = JStr ''env-key''\<rparr>"
    using credential_required_and_variable_first
      [of ?w1 demo_args "[]" "''env-key''" _ "''config''"
          "[(''api_base_url'', JStr ''https://cxone.test/api''),
            (''api_key'', JStr ''file-key''),
            (''environments'',
               JDict [(''dev'', JDict [(''business_unit_id'', JInt 4601)]),
                      (''staging'', JDict [])])]"]
      e1 r1 y1
    by (simp add: demo_config_def dict_get_def)
  from e0 c0 a c1 b show ?thesis by (simp add: demo_args_def)
qed

section \<open>The path of the test suite\<close>

lemma takeWhile_no_slash:
  "CHR ''/'' \<notin> set name \<Longrightarrow> takeWhile (\<lambda>c. c \<noteq> CHR ''/'') (rev name) = rev name"
  by (rule takeWhile_eq_all_conv [THEN iffD2]) auto

lemma dropWhile_no_slash:
  "CHR ''/'' \<notin> set name \<Longrightarrow> dropWhile (\<lambda>c. c \<noteq> CHR ''/'') (rev name) = []"
  by (rule dropWhile_eq_Nil_conv [THEN iffD2]) auto

lemma replicate_same: "xs = replicate n c \<Longrightarrow> set xs \<subseteq> {c}"
  by auto

lemma basename_in_directory:
  "CHR ''/'' \<notin> set name \<Longrightarrow> basename (d @ ''/'' @ name) = name"
  by (simp add: basename_def takeWhile_tail takeWhile_no_slash)

lemma basename_plain: "CHR ''/'' \<notin> set name \<Longrightarrow> basename name = name"
  by (simp add: basename_def takeWhile_no_slash)

lemma dirname_plain: "CHR ''/'' \<notin> set name \<Longrightarrow> dirname name = []"
  by (simp add: dirname_def dropWhile_no_slash)

lemma dirname_in_directory:
  assumes "CHR ''/'' \<notin> set name" and "d \<noteq> []" and "last d \<noteq> CHR ''/''"
  shows "dirname (d @ ''/'' @ name) = d"
proof -
  have head: "rev (dropWhile (\<lambda>c. c \<noteq> CHR ''/'') (rev (d @ ''/'' @ name))) = d @ ''/''"
    using assms(1) by (simp add: dropWhile_append dropWhile_no_slash)
  have differs: "d @ ''/'' \<noteq> replicate (length (d @ ''/'')) CHR ''/''"
  proof
    assume "d @ ''/'' = replicate (length (d @ ''/'')) CHR ''/''"
    from replicate_same [OF this] have "set d \<subseteq> {CHR ''/''}"
      by simp
    moreover have "last d \<in> set d"
      using assms(2) by simp
    ultimately show False
      using assms(3) by blast
  qed
  have strip: "dropWhile (\<lambda>c. c = CHR ''/'') (CHR ''/'' # rev d) = rev d"
    using assms(2,3) by (cases "rev d") (auto simp: last_rev hd_rev)
  show ?thesis
    unfolding dirname_def head Let_def using differs strip by simp
qed

lemma join_step_append:
  "b \<noteq> [] \<Longrightarrow> join_step path (b @ s) = join_step path b @ s"
  by (simp add: join_step_def)

lemma before_first_dot_no_slash:
  "CHR ''/'' \<notin> set name \<Longrightarrow> CHR ''/'' \<notin> set (before_first_dot name)"
  by (auto simp: before_first_dot_def dest: set_takeWhileD)

lemma join_file:
  "CHR ''/'' \<notin> set n \<Longrightarrow> path \<noteq> [] \<Longrightarrow> last path \<noteq> CHR ''/'' \<Longrightarrow>
     join_step path (n @ ''_tests.yml'') = path @ ''/'' @ n @ ''_tests.yml''"
  by (cases n) (auto simp: join_step_def)

lemma pipeline_step3_fst_cong:
  "requests_of t = requests_of t' \<Longrightarrow>
     fst (pipeline_step3 w p sp env t) = fst (pipeline_step3 w p sp env t')"
  using deploy_fst_cong [of t t' w p sp env]
  by (simp add: pipeline_step3_def case_prod_beta split: sum.splits)


lemma run_pipeline_missing_suite_like_skip:
  assumes "\<not> path_exists w (test_suite_path sp)"
  shows "fst (run_pipeline w p sp env False tr) = fst (run_pipeline w p sp env True tr)"
proof -
  let ?v = "validate_script w p sp (tr @ [Log INFO (StartingPipeline sp env)])"
  have "fst (pipeline_step3 w p sp env (snd ?v @ [Log WARNING (NoTestSuite (test_suite_path sp))])) =
        fst (pipeline_step3 w p sp env (snd ?v))"
    by (rule pipeline_step3_fst_cong) simp
  with assms show ?thesis
    by (simp add: run_pipeline_def case_prod_beta split: sum.splits)
qed

text \<open>
  Claim C9, as stated: the probed path is the script's directory, a \<^verbatim>\<open>tests\<close>
  subdirectory, and in it a file named by the script's base name followed by
  \<^verbatim>\<open>_tests\<close>. For \<^verbatim>\<open>scripts/greeting.flow\<close> that is
  \<^verbatim>\<open>scripts/tests/greeting_tests\<close>, but the program probes
  \<^verbatim>\<open>scripts/tests/greeting_tests.yml\<close>: line 250 ends the file name with
  \<^verbatim>\<open>_tests.yml\<close>.
\<close>

theorem test_suite_path_extension_counterexample:
  "spec_test_suite_path ''scripts/greeting.flow'' = ''scripts/tests/greeting_tests'' \<and>
   test_suite_path ''scripts/greeting.flow'' = ''scripts/tests/greeting_tests.yml'' \<and>
   test_suite_path ''scripts/greeting.flow'' \<noteq> spec_test_suite_path ''scripts/greeting.flow''"
  by (simp add: spec_test_suite_path_def program_defs)

text \<open>
  Claim C9, amended. The path \<^verbatim>\<open>run_pipeline\<close> probes is the script's directory, a
  \<^verbatim>\<open>tests\<close> subdirectory, and in it a file named by the script's base name (the
  part of its file name before the first dot) followed by \<^verbatim>\<open>_tests.yml\<close>: for a
  script \<open>name\<close> in the directory \<open>d\<close> it is \<open>d/tests/<base>_tests.yml\<close>,
  for a script given without directory \<open>tests/<base>_tests.yml\<close>. When no file
  exists there, the pipeline has the result it has when tests are skipped.
\<close>

theorem test_suite_path_shape:
  "test_suite_path script_path = spec_test_suite_path script_path @ ''.yml'' \<and>
   (CHR ''/'' \<notin> set name \<and> d \<noteq> [] \<and> last d \<noteq> CHR ''/'' \<longrightarrow>
      test_suite_path (d @ ''/'' @ name) =
        d @ ''/tests/'' @ before_first_dot name @ ''_tests.yml'') \<and>
   (CHR ''/'' \<notin> set name \<longrightarrow>
      test_suite_path name = ''tests/'' @ before_first_dot name @ ''_tests.yml'') \<and>
   (\<not> path_exists w (test_suite_path script_path) \<longrightarrow>
      fst (run_pipeline w p script_path environment False tr) =
      fst (run_pipeline w p script_path environment True tr))"
proof -
  have ext: "test_suite_path script_path = spec_test_suite_path script_path @ ''.yml''"
    using join_step_append [of "script_name script_path @ ''_tests''"
        "join_step (dirname script_path) ''tests''" "''.yml''"]
    by (simp add: test_suite_path_def spec_test_suite_path_def path_join_def)
  have nested: "CHR ''/'' \<notin> set name \<and> d \<noteq> [] \<and> last d \<noteq> CHR ''/'' \<longrightarrow>
      test_suite_path (d @ ''/'' @ name) =
        d @ ''/tests/'' @ before_first_dot name @ ''_tests.yml''"
  proof
    assume h: "CHR ''/'' \<notin> set name \<and> d \<noteq> [] \<and> last d \<noteq> CHR ''/''"
    then have dir: "dirname (d @ ''/'' @ name) = d"
      and base: "basename (d @ ''/'' @ name) = name"
      using dirname_in_directory [of name d] basename_in_directory [of name d] by simp_all
    have first: "join_step d ''tests'' = d @ ''/tests''"
      using h by (simp add: join_step_def)
    have "join_step (d @ ''/tests'') (before_first_dot name @ ''_tests.yml'') =
        (d @ ''/tests'') @ ''/'' @ before_first_dot name @ ''_tests.yml''"
      using h by (intro join_file before_first_dot_no_slash) simp_all
    with dir base first show "test_suite_path (d @ ''/'' @ name) =
        d @ ''/tests/'' @ before_first_dot name @ ''_tests.yml''"
      by (simp add: test_suite_path_def path_join_def script_name_def)
  qed
  have plain: "CHR ''/'' \<notin> set name \<longrightarrow>
      test_suite_path name = ''tests/'' @ before_first_dot name @ ''_tests.yml''"
  proof
    assume h: "CHR ''/'' \<notin> set name"
    have first: "join_step [] ''tests'' = ''tests''"
      by (simp add: join_step_def)
    have "join_step ''tests'' (before_first_dot name @ ''_tests.yml'') =
        ''tests'' @ ''/'' @ before_first_dot name @ ''_tests.yml''"
      using h by (intro join_file before_first_dot_no_slash) simp_all
    with first show "test_suite_path name = ''tests/'' @ before_first_dot name @ ''_tests.yml''"
      using h
      by (simp add: test_suite_path_def path_join_def script_name_def dirname_plain
          basename_plain)
  qed
  from ext nested plain
    run_pipeline_missing_suite_like_skip [of w script_path p environment tr]
  show ?thesis by blast
qed

theorem test_suite_path_shape_witness:
  "CHR ''/'' \<notin> set ''greeting.flow'' \<and>
   test_suite_path (''scripts'' @ ''/'' @ ''greeting.flow'') =
     ''scripts'' @ ''/tests/'' @ before_first_dot ''greeting.flow'' @ ''_tests.yml'' \<and>
   test_suite_path ''greeting.flow'' =
     ''tests/'' @ before_first_dot ''greeting.flow'' @ ''_tests.yml'' \<and>
   \<not> path_exists (demo_world demo_files (demo_server valid_yes tests_failed deployed) None)
        (test_suite_path ''scripts/greeting.flow'') \<and>
   fst (run_pipeline (demo_world demo_files (demo_server valid_yes tests_failed deployed) None)
          demo_pipeline ''scripts/greeting.flow'' ''dev'' False []) =
   fst (run_pipeline (demo_world demo_files (demo_server valid_yes tests_failed deployed) None)
          demo_pipeline ''scripts/greeting.flow'' ''dev'' True [])"
proof -
  let ?w = "demo_world demo_files (demo_server valid_yes tests_failed deployed) None"
  have n: "CHR ''/'' \<notin> set ''greeting.flow''"
    and d: "''scripts'' \<noteq> []" "last ''scripts'' \<noteq> CHR ''/''"
    by simp_all
  have e: "\<not> path_exists ?w (test_suite_path ''scripts/greeting.flow'')"
    by (simp add: program_defs demo_defs)
  from test_suite_path_shape [of "''scripts/greeting.flow''" "''greeting.flow''" "''scripts''"
      ?w demo_pipeline "''dev''" "[]"] n d e
  show ?thesis by blast
qed

end
